theory Spec2Isabelle
  imports Complex_Main "HOL-Library.Sublist" "HOL-Library.Multiset"
begin

section \<open>Chunk mapper (pipeline/chunk\_mapper.py)\<close>

text \<open>
  Character positions and identifiers are Python integers, hence \<open>int\<close>. A chunk is the
  \<open>ChunkBoundary\<close> dataclass. An entity is the dictionary the extractors build; the keys
  that matter to the mapper are kept as record fields. Both extractors store the span of
  an entity under the keys \<open>start\<close> and \<open>end\<close>; the mapper reads the keys
  \<open>occurrences\<close>, \<open>start_pos\<close> and \<open>end_pos\<close>, which are optional:
  an absent \<open>occurrences\<close> key is the empty list, an absent position is \<open>None\<close>.
  The keys \<open>chunk_appearances\<close>, \<open>spans_multiple_chunks\<close> and \<open>num_chunks\<close>
  are added by the mapper; every reader uses \<open>get\<close> with the defaults \<open>[]\<close> and
  \<open>False\<close>, which is what the fields hold before the mapper has run.
\<close>

record chunk =
  vector_rowid :: int
  chunk_index :: int
  char_start :: int
  char_end :: int
  chunk_text :: string

record occurrence =
  occ_start :: int
  occ_end :: int

record appearance =
  app_vector_rowid :: int
  app_chunk_index :: int
  offset_start :: int
  offset_end :: int

record entity =
  ent_text :: string
  normalized :: string
  ent_start :: int
  ent_end :: int
  type_primary :: string
  type_sub1 :: "string option"
  type_sub2 :: "string option"
  type_sub3 :: "string option"
  type_full :: string
  confidence :: real
  context_before :: string
  context_after :: string
  sentence :: string
  occurrences :: "occurrence list"
  start_pos :: "int option"
  end_pos :: "int option"
  chunk_appearances :: "appearance list"
  spans_multiple_chunks :: bool
  num_chunks :: nat

definition overlap_threshold :: int where
  "overlap_threshold = 10"

definition calculate_overlap :: "int \<Rightarrow> int \<Rightarrow> int \<Rightarrow> int \<Rightarrow> int" where
  "calculate_overlap start1 end1 start2 end2 =
     (let overlap_start = max start1 start2;
          overlap_end = min end1 end2
      in max 0 (overlap_end - overlap_start))"

definition chunk_key :: "chunk \<Rightarrow> int \<times> int" where
  "chunk_key c = (vector_rowid c, chunk_index c)"

definition app_key :: "appearance \<Rightarrow> int \<times> int" where
  "app_key a = (app_vector_rowid a, app_chunk_index a)"

definition make_appearance :: "occurrence \<Rightarrow> chunk \<Rightarrow> appearance" where
  "make_appearance occ c =
     \<lparr> app_vector_rowid = vector_rowid c,
       app_chunk_index = chunk_index c,
       offset_start = max 0 (occ_start occ - char_start c),
       offset_end = min (int (length (chunk_text c))) (occ_end occ - char_start c) \<rparr>"

text \<open>The inner loop over the chunk boundaries, for one occurrence; the loop state is
  the pair \<open>(chunk_appearances, seen_chunks)\<close>.\<close>

fun map_occurrence ::
  "occurrence \<Rightarrow> chunk list \<Rightarrow> appearance list \<times> (int \<times> int) set
     \<Rightarrow> appearance list \<times> (int \<times> int) set" where
  "map_occurrence occ [] st = st"
| "map_occurrence occ (c # cs) (apps, seen) =
     (if calculate_overlap (occ_start occ) (occ_end occ) (char_start c) (char_end c)
           \<ge> overlap_threshold
         \<and> chunk_key c \<notin> seen
      then map_occurrence occ cs (apps @ [make_appearance occ c], insert (chunk_key c) seen)
      else map_occurrence occ cs (apps, seen))"

text \<open>The outer loop over the occurrences of one entity.\<close>

fun map_occurrences ::
  "occurrence list \<Rightarrow> chunk list \<Rightarrow> appearance list \<times> (int \<times> int) set
     \<Rightarrow> appearance list \<times> (int \<times> int) set" where
  "map_occurrences [] cs st = st"
| "map_occurrences (occ # occs) cs st = map_occurrences occs cs (map_occurrence occ cs st)"

text \<open>The occurrences the mapper works on: those of the entity, or, when there are none,
  one built from \<open>start_pos\<close> (default 0) and \<open>end_pos\<close> (default
  \<open>start_pos + len(text)\<close>).\<close>

definition entity_occurrences :: "entity \<Rightarrow> occurrence list" where
  "entity_occurrences e =
     (if occurrences e \<noteq> [] then occurrences e
      else
        (let sp = (case start_pos e of None \<Rightarrow> 0 | Some s \<Rightarrow> s);
             ep = (case end_pos e of None \<Rightarrow> sp + int (length (ent_text e)) | Some x \<Rightarrow> x)
         in [\<lparr> occ_start = sp, occ_end = ep \<rparr>]))"

definition map_entity :: "chunk list \<Rightarrow> entity \<Rightarrow> entity" where
  "map_entity cs e =
     (let apps = fst (map_occurrences (entity_occurrences e) cs ([], {}))
      in e \<lparr> chunk_appearances := apps,
             spans_multiple_chunks := (length apps > 1),
             num_chunks := length apps \<rparr>)"

definition map_entities_to_chunks :: "entity list \<Rightarrow> chunk list \<Rightarrow> entity list" where
  "map_entities_to_chunks entities chunks =
     (if chunks = [] then entities else map (map_entity chunks) entities)"

text \<open>The constraints of the request model \<open>ChunkMetadata\<close> (api/models.py) on one chunk:
  the field bounds and the validator \<open>end_after_start\<close>.\<close>

definition chunk_metadata_valid :: "chunk \<Rightarrow> bool" where
  "chunk_metadata_valid c \<longleftrightarrow>
     vector_rowid c > 0 \<and> chunk_index c \<ge> 0 \<and> char_start c \<ge> 0 \<and> char_end c > 0
     \<and> 10 \<le> length (chunk_text c) \<and> length (chunk_text c) \<le> 10000
     \<and> char_end c > char_start c"

text \<open>An entity as the extractors hand it to the mapper: the span is under \<open>start\<close> and
  \<open>end\<close>, and none of the keys \<open>occurrences\<close>, \<open>start_pos\<close>, \<open>end_pos\<close> or
  the mapper's own keys is set.\<close>

definition extractor_entity :: "entity \<Rightarrow> bool" where
  "extractor_entity e \<longleftrightarrow>
     occurrences e = [] \<and> start_pos e = None \<and> end_pos e = None
     \<and> chunk_appearances e = [] \<and> \<not> spans_multiple_chunks e \<and> num_chunks e = 0"

definition overlapping :: "occurrence \<Rightarrow> chunk \<Rightarrow> bool" where
  "overlapping occ c \<longleftrightarrow>
     calculate_overlap (occ_start occ) (occ_end occ) (char_start c) (char_end c) \<ge> overlap_threshold"

definition example_chunk :: chunk where
  "example_chunk = \<lparr> vector_rowid = 45001, chunk_index = 0, char_start = 10, char_end = 100,
     chunk_text = replicate 90 CHR ''x'' \<rparr>"

definition example_entity :: "int \<Rightarrow> int \<Rightarrow> entity" where
  "example_entity s e = \<lparr> ent_text = ''knowledge graph'', normalized = ''knowledge graph'',
     ent_start = s, ent_end = e, type_primary = ''Concept'',
     type_sub1 = None, type_sub2 = None, type_sub3 = None, type_full = ''Concept'',
     confidence = 0.9, context_before = [], context_after = [], sentence = [], occurrences = [\<lparr> occ_start = s, occ_end = e \<rparr>],
     start_pos = None, end_pos = None, chunk_appearances = [],
     spans_multiple_chunks = False, num_chunks = 0 \<rparr>"

section \<open>Strings\<close>

text \<open>
  A Python string is modelled as a \<open>string\<close> whose characters are code points below
  256. \<open>py_isspace\<close> is \<open>str.isspace\<close> on that range. \<open>str.upper\<close> leaves that
  range (the capital of U+00FF is U+0178) and changes lengths (the capital of U+00DF is
  \<open>SS\<close>), so it is not defined here: the functions that call it take it as the
  parameter \<open>str_upper\<close>.
\<close>

definition py_isspace :: "char \<Rightarrow> bool" where
  "py_isspace c \<longleftrightarrow>
     (let n = (of_char c :: nat)
      in (9 \<le> n \<and> n \<le> 13) \<or> (28 \<le> n \<and> n \<le> 32) \<or> n = 133 \<or> n = 160)"

definition py_lstrip :: "string \<Rightarrow> string" where
  "py_lstrip s = dropWhile py_isspace s"

definition py_rstrip :: "string \<Rightarrow> string" where
  "py_rstrip s = rev (dropWhile py_isspace (rev s))"

definition py_strip :: "string \<Rightarrow> string" where
  "py_strip s = py_rstrip (py_lstrip s)"

definition replace_char :: "char \<Rightarrow> char \<Rightarrow> string \<Rightarrow> string" where
  "replace_char a b s = map (\<lambda>c. if c = a then b else c) s"

section \<open>Graph store adapter (storage/neo4j\_client.py)\<close>

text \<open>
  The graph held by the database: labelled nodes and typed, directed edges with
  properties. Uniqueness constraints make the merge key of a node its identity, so the
  element id a query returns is modelled by the node's label and key. A property that is
  not set is \<open>None\<close> (Cypher's null). Timestamps are left out: no claim reads them.
\<close>

datatype node_key = DocumentNode int | ChunkNode int | EntityNode string

record document_node =
  content_id :: int
  url :: string
  title :: string

record chunk_node =
  cn_vector_rowid :: int
  cn_chunk_index :: int
  cn_char_start :: int
  cn_char_end :: int
  text_preview :: string

record entity_node =
  en_normalized :: string
  en_text :: string
  en_type_primary :: string
  en_type_sub1 :: "string option"
  en_type_sub2 :: "string option"
  en_type_sub3 :: "string option"
  en_type_full :: string
  mention_count :: int
  avg_confidence :: real

record edge =
  src :: node_key
  label :: string
  dst :: node_key
  e_offset_start :: "int option"
  e_offset_end :: "int option"
  e_confidence :: "real option"
  e_context_before :: "string option"
  e_context_after :: "string option"
  e_sentence :: "string option"
  e_context :: "string option"
  occurrence_count :: "int option"

record graph =
  documents :: "document_node list"
  chunk_nodes :: "chunk_node list"
  entity_nodes :: "entity_node list"
  edges :: "edge list"

definition empty_graph :: graph where
  "empty_graph = \<lparr> documents = [], chunk_nodes = [], entity_nodes = [], edges = [] \<rparr>"

datatype py_error = TypeError | KeyError | ValueError | AttributeError
  | JSONDecodeError | ModelUnavailableError | RuntimeError | HTTPException nat

text \<open>\<open>MERGE\<close>: the node or edge that matches is updated in place (\<open>ON MATCH SET\<close>
  and \<open>SET\<close>); when nothing matches, the created one is appended.\<close>

fun merge_by :: "('a \<Rightarrow> bool) \<Rightarrow> ('a \<Rightarrow> 'a) \<Rightarrow> 'a \<Rightarrow> 'a list \<Rightarrow> 'a list" where
  "merge_by matches on_match created [] = [created]"
| "merge_by matches on_match created (x # xs) =
     (if matches x then on_match x # xs else x # merge_by matches on_match created xs)"

definition bare_edge :: "node_key \<Rightarrow> string \<Rightarrow> node_key \<Rightarrow> edge" where
  "bare_edge a l b =
     \<lparr> src = a, label = l, dst = b, e_offset_start = None, e_offset_end = None,
       e_confidence = None, e_context_before = None, e_context_after = None,
       e_sentence = None, e_context = None, occurrence_count = None \<rparr>"

definition is_edge :: "node_key \<Rightarrow> string \<Rightarrow> node_key \<Rightarrow> edge \<Rightarrow> bool" where
  "is_edge a l b e \<longleftrightarrow> src e = a \<and> label e = l \<and> dst e = b"

definition has_node :: "graph \<Rightarrow> node_key \<Rightarrow> bool" where
  "has_node g k =
     (case k of
        DocumentNode i \<Rightarrow> i \<in> set (map content_id (documents g))
      | ChunkNode r \<Rightarrow> r \<in> set (map cn_vector_rowid (chunk_nodes g))
      | EntityNode n \<Rightarrow> n \<in> set (map en_normalized (entity_nodes g)))"

text \<open>\<open>create_document\<close>: merge by \<open>content_id\<close>; the metadata is not stored.\<close>

definition create_document :: "graph \<Rightarrow> int \<Rightarrow> string \<Rightarrow> string \<Rightarrow> graph \<times> node_key" where
  "create_document g cid u t =
     (g \<lparr> documents :=
          merge_by (\<lambda>d. content_id d = cid) (\<lambda>d. d \<lparr> url := u, title := t \<rparr>)
            \<lparr> content_id = cid, url = u, title = t \<rparr> (documents g) \<rparr>,
      DocumentNode cid)"

text \<open>\<open>create_chunk\<close>: when the document does not exist the \<open>MATCH\<close> yields no
  row, \<open>result.single()\<close> is \<open>None\<close> and subscripting it raises \<open>TypeError\<close>.\<close>

definition create_chunk ::
  "graph \<Rightarrow> node_key \<Rightarrow> int \<Rightarrow> int \<Rightarrow> int \<Rightarrow> int \<Rightarrow> string \<Rightarrow> py_error + graph \<times> node_key" where
  "create_chunk g document_node_id rowid idx cs ce preview =
     (if (case document_node_id of DocumentNode _ \<Rightarrow> has_node g document_node_id | _ \<Rightarrow> False)
      then
        Inr (g \<lparr> chunk_nodes :=
                 merge_by (\<lambda>c. cn_vector_rowid c = rowid)
                   (\<lambda>c. c \<lparr> cn_chunk_index := idx, cn_char_start := cs, cn_char_end := ce,
                          text_preview := take 200 preview \<rparr>)
                   \<lparr> cn_vector_rowid = rowid, cn_chunk_index = idx, cn_char_start = cs,
                     cn_char_end = ce, text_preview = take 200 preview \<rparr>
                   (chunk_nodes g),
               edges :=
                 merge_by (is_edge document_node_id ''HAS_CHUNK'' (ChunkNode rowid)) (\<lambda>e. e)
                   (bare_edge document_node_id ''HAS_CHUNK'' (ChunkNode rowid)) (edges g) \<rparr>,
             ChunkNode rowid)
      else Inl TypeError)"

text \<open>\<open>create_entity\<close>. The items of \<open>ON MATCH SET\<close> are applied from left to right,
  each reading the properties the previous ones wrote: \<open>mention_count\<close> is incremented
  first, and the average is computed from the incremented count.\<close>

definition entity_on_match :: "real \<Rightarrow> entity_node \<Rightarrow> entity_node" where
  "entity_on_match conf n =
     (let n1 = n \<lparr> mention_count := mention_count n + 1 \<rparr>;
          n2 = n1 \<lparr> avg_confidence :=
                  (avg_confidence n1 * real_of_int (mention_count n1 - 1) + conf)
                    / real_of_int (mention_count n1) \<rparr>
      in n2)"

definition create_entity ::
  "graph \<Rightarrow> string \<Rightarrow> string \<Rightarrow> string \<Rightarrow> string option \<Rightarrow> string option \<Rightarrow> string option
     \<Rightarrow> string \<Rightarrow> real \<Rightarrow> graph \<times> node_key" where
  "create_entity g txt nrm tp s1 s2 s3 tf conf =
     (g \<lparr> entity_nodes :=
          merge_by (\<lambda>n. en_normalized n = nrm) (entity_on_match conf)
            \<lparr> en_normalized = nrm, en_text = txt, en_type_primary = tp, en_type_sub1 = s1,
              en_type_sub2 = s2, en_type_sub3 = s3, en_type_full = tf,
              mention_count = 1, avg_confidence = conf \<rparr>
            (entity_nodes g) \<rparr>,
      EntityNode nrm)"

text \<open>\<open>link_entity_to_chunk\<close>: nothing happens unless both nodes exist.\<close>

definition link_entity_to_chunk ::
  "graph \<Rightarrow> node_key \<Rightarrow> node_key \<Rightarrow> int \<Rightarrow> int \<Rightarrow> real \<Rightarrow> string \<Rightarrow> string \<Rightarrow> string \<Rightarrow> graph" where
  "link_entity_to_chunk g entity_node_id chunk_node_id os oe conf cb ca sen =
     (let setp = (\<lambda>e. e \<lparr> e_offset_start := Some os, e_offset_end := Some oe,
                          e_confidence := Some conf, e_context_before := Some (take 100 cb),
                          e_context_after := Some (take 100 ca), e_sentence := Some (take 500 sen) \<rparr>)
      in if (case entity_node_id of EntityNode _ \<Rightarrow> has_node g entity_node_id | _ \<Rightarrow> False)
            \<and> (case chunk_node_id of ChunkNode _ \<Rightarrow> has_node g chunk_node_id | _ \<Rightarrow> False)
         then g \<lparr> edges :=
                  merge_by (is_edge entity_node_id ''MENTIONED_IN'' chunk_node_id) setp
                    (setp (bare_edge entity_node_id ''MENTIONED_IN'' chunk_node_id)) (edges g) \<rparr>
         else g)"

text \<open>\<open>create_relationship\<close>: the edge type is \<open>predicate.upper().replace(" ", "_")\<close>. On a match
  the confidence is averaged with the count read before its increment. Arithmetic on a
  null property is null.\<close>

definition relationship_on_match :: "real \<Rightarrow> edge \<Rightarrow> edge" where
  "relationship_on_match conf r =
     (let r1 = r \<lparr> e_confidence :=
                  (case (e_confidence r, occurrence_count r) of
                     (Some c, Some n) \<Rightarrow> Some ((c * real_of_int n + conf) / real_of_int (n + 1))
                   | _ \<Rightarrow> None) \<rparr>;
          r2 = r1 \<lparr> occurrence_count := map_option (\<lambda>n. n + 1) (occurrence_count r1) \<rparr>
      in r2)"

definition rel_type_of :: "(string \<Rightarrow> string) \<Rightarrow> string \<Rightarrow> string" where
  "rel_type_of str_upper predicate = replace_char CHR '' '' CHR ''_'' (str_upper predicate)"

definition create_relationship ::
  "(string \<Rightarrow> string) \<Rightarrow> graph \<Rightarrow> string \<Rightarrow> string \<Rightarrow> string \<Rightarrow> real \<Rightarrow> string
     \<Rightarrow> graph" where
  "create_relationship str_upper g subject_normalized predicate object_normalized conf ctx =
     (let rel_type = rel_type_of str_upper predicate;
          s = EntityNode subject_normalized;
          ob = EntityNode object_normalized
      in if has_node g s \<and> has_node g ob
         then g \<lparr> edges :=
                  merge_by (is_edge s rel_type ob) (relationship_on_match conf)
                    ((bare_edge s rel_type ob)
                       \<lparr> e_confidence := Some conf, e_context := Some (take 500 ctx),
                         occurrence_count := Some 1 \<rparr>)
                    (edges g) \<rparr>
         else g)"

text \<open>Upper-casing of the letters a to z; it agrees with \<open>str.upper\<close> on ASCII text and
  is used only on the ASCII literals of the examples.\<close>

definition ascii_upper :: "string \<Rightarrow> string" where
  "ascii_upper s =
     map (\<lambda>c. let n = (of_char c :: nat) in if 97 \<le> n \<and> n \<le> 122 then char_of (n - 32) else c) s"

definition example_graph :: graph where
  "example_graph =
     (let g1 = fst (create_entity empty_graph ''Neo4j'' ''neo4j'' ''Database'' None None None ''Database'' 0.8);
          g2 = fst (create_entity g1 ''Python'' ''python'' ''Language'' None None None ''Language'' 0.9)
      in create_relationship ascii_upper g2 ''python'' ''integrates with'' ''neo4j'' 0.5 ''Python integrates with Neo4j'')"

definition example_ingest_chunk :: chunk where
  "example_ingest_chunk = \<lparr> vector_rowid = 45001, chunk_index = 0, char_start = 0, char_end = 2500,
     chunk_text = ''The knowledge graph extraction service'' \<rparr>"

definition example_extracted_entity :: entity where
  "example_extracted_entity = \<lparr> ent_text = ''knowledge graph extraction'',
     normalized = ''knowledge graph extraction'', ent_start = 4, ent_end = 30,
     type_primary = ''Concept'', type_sub1 = None, type_sub2 = None, type_sub3 = None,
     type_full = ''Concept'', confidence = 0.9, context_before = ''The'',
     context_after = ''service'', sentence = ''The knowledge graph extraction service'',
     occurrences = [], start_pos = None, end_pos = None, chunk_appearances = [],
     spans_multiple_chunks = False, num_chunks = 0 \<rparr>"

section \<open>Enhanced search: scoring (api/enhanced\_search.py)\<close>

text \<open>
  One entry of \<open>search_chunks\<close> or \<open>expanded_chunks\<close> in the query result: a map
  the query builds with every key present, whose values may be null (\<open>None\<close>). The
  lists of entity names are never null. The element id of a node is its key. Of the query
  result only the two lists the scorer reads are kept.
\<close>

record result_chunk =
  rc_chunk_id :: "node_key option"
  rc_vector_rowid :: "int option"
  rc_chunk_index :: "int option"
  rc_text :: "string option"
  rc_doc_url :: "string option"
  rc_search_entities :: "string list"
  rc_expanded_entities :: "string list"

record query_result =
  search_chunks :: "result_chunk list"
  expanded_chunks :: "result_chunk list"

record scored_chunk =
  sc_chunk_id :: "node_key option"
  sc_vector_rowid :: int
  sc_chunk_index :: "int option"
  sc_chunk_text :: string
  sc_document_url :: "string option"
  expansion_score :: real
  search_entity_count :: nat
  expanded_entity_count :: nat
  relationship_count :: nat

text \<open>The dictionary appended for a search-term chunk. \<open>chunk.get("text", "")[:500]\<close>
  raises \<open>TypeError\<close> when the value under the key is null.\<close>

definition search_entry :: "int \<Rightarrow> result_chunk \<Rightarrow> py_error + scored_chunk" where
  "search_entry rowid c =
     (let n = length (rc_search_entities c);
          base_score = (if n \<ge> 2 then 1.0 else if n = 1 then 0.6 else 0.4)
      in case rc_text c of
           None \<Rightarrow> Inl TypeError
         | Some t \<Rightarrow>
             Inr \<lparr> sc_chunk_id = rc_chunk_id c, sc_vector_rowid = rowid,
                   sc_chunk_index = rc_chunk_index c, sc_chunk_text = take 500 t,
                   sc_document_url = rc_doc_url c, expansion_score = base_score,
                   search_entity_count = n, expanded_entity_count = 0,
                   relationship_count = 0 \<rparr>)"

text \<open>The dictionary appended for an expansion chunk.\<close>

definition expanded_entry :: "int \<Rightarrow> result_chunk \<Rightarrow> py_error + scored_chunk" where
  "expanded_entry rowid c =
     (let n = length (rc_expanded_entities c);
          base_score = (if n > 3 then 0.8 else if n > 1 then 0.6 else 0.4)
      in case rc_text c of
           None \<Rightarrow> Inl TypeError
         | Some t \<Rightarrow>
             Inr \<lparr> sc_chunk_id = rc_chunk_id c, sc_vector_rowid = rowid,
                   sc_chunk_index = rc_chunk_index c, sc_chunk_text = take 500 t,
                   sc_document_url = rc_doc_url c, expansion_score = base_score,
                   search_entity_count = 0, expanded_entity_count = n,
                   relationship_count = 0 \<rparr>)"

text \<open>The two loops of \<open>_score_and_rank_chunks\<close> have the same shape; \<open>entry\<close> is the
  dictionary built in the body. The loop state is \<open>(scored_chunks, chunk_dedup)\<close>.\<close>

fun score_loop ::
  "(int \<Rightarrow> result_chunk \<Rightarrow> py_error + scored_chunk) \<Rightarrow> result_chunk list
     \<Rightarrow> scored_chunk list \<times> int set \<Rightarrow> py_error + scored_chunk list \<times> int set" where
  "score_loop entry [] st = Inr st"
| "score_loop entry (c # cs) (scored, dedup) =
     (case rc_vector_rowid c of
        None \<Rightarrow> score_loop entry cs (scored, dedup)
      | Some rowid \<Rightarrow>
          if rowid \<in> dedup then score_loop entry cs (scored, dedup)
          else (case entry rowid c of
                  Inl err \<Rightarrow> Inl err
                | Inr s \<Rightarrow> score_loop entry cs (scored @ [s], insert rowid dedup)))"

text \<open>\<open>list.sort(key=..., reverse=True)\<close> is a stable sort by descending key.\<close>

definition sort_by_score_desc :: "scored_chunk list \<Rightarrow> scored_chunk list" where
  "sort_by_score_desc xs = sort_key (\<lambda>c. - expansion_score c) xs"

definition score_and_rank_chunks :: "query_result \<Rightarrow> py_error + scored_chunk list" where
  "score_and_rank_chunks qr =
     (case score_loop search_entry (search_chunks qr) ([], {}) of
        Inl err \<Rightarrow> Inl err
      | Inr st1 \<Rightarrow>
          (case score_loop expanded_entry (expanded_chunks qr) st1 of
             Inl err \<Rightarrow> Inl err
           | Inr st2 \<Rightarrow> Inr (sort_by_score_desc (fst st2))))"

text \<open>The slice \<open>xs[:n]\<close>.\<close>

definition py_prefix :: "int \<Rightarrow> 'a list \<Rightarrow> 'a list" where
  "py_prefix n xs = (if n \<ge> 0 then take (nat n) xs else take (length xs - nat (- n)) xs)"

text \<open>The first chunk of a list that carries a given row id.\<close>

definition first_with_rowid :: "int \<Rightarrow> result_chunk list \<Rightarrow> result_chunk option" where
  "first_with_rowid r cs = find (\<lambda>c. rc_vector_rowid c = Some r) cs"

text \<open>The chunks a loop appends an entry for: the first of each row id not seen before.\<close>

fun first_by_rowid :: "int set \<Rightarrow> result_chunk list \<Rightarrow> result_chunk list" where
  "first_by_rowid seen [] = []"
| "first_by_rowid seen (c # cs) =
     (case rc_vector_rowid c of
        None \<Rightarrow> first_by_rowid seen cs
      | Some r \<Rightarrow> if r \<in> seen then first_by_rowid seen cs
                 else c # first_by_rowid (insert r seen) cs)"

definition rowids_of :: "result_chunk list \<Rightarrow> int set" where
  "rowids_of cs = {r. Some r \<in> set (map rc_vector_rowid cs)}"

definition search_scored :: "result_chunk \<Rightarrow> scored_chunk" where
  "search_scored c = projr (search_entry (the (rc_vector_rowid c)) c)"

definition expanded_scored :: "result_chunk \<Rightarrow> scored_chunk" where
  "expanded_scored c = projr (expanded_entry (the (rc_vector_rowid c)) c)"

definition example_result_chunk :: "int \<Rightarrow> string list \<Rightarrow> string list \<Rightarrow> result_chunk" where
  "example_result_chunk r ss es =
     \<lparr> rc_chunk_id = Some (ChunkNode r), rc_vector_rowid = Some r, rc_chunk_index = Some 0,
       rc_text = Some ''Neo4j has a Python driver'', rc_doc_url = Some ''https://example.org'',
       rc_search_entities = ss, rc_expanded_entities = es \<rparr>"

definition example_query_result :: query_result where
  "example_query_result =
     \<lparr> search_chunks =
         [example_result_chunk 2 [''Python''] [],
          example_result_chunk 1 [''Neo4j'', ''Python''] []],
       expanded_chunks =
         [example_result_chunk 2 [] [''Cypher'', ''Bolt'', ''Driver'', ''Graph''],
          example_result_chunk 3 [] [''Cypher'', ''Bolt'', ''Driver'', ''Graph'']] \<rparr>"

section \<open>Unified extractor: healing truncated JSON (extractors/kg\_extractor.py)\<close>



fun find_char :: "char \<Rightarrow> string \<Rightarrow> nat option" where
  "find_char c [] = None"
| "find_char c (x # xs) = (if x = c then Some 0 else map_option Suc (find_char c xs))"














section \<open>Chunk mapper: relationships\<close>

text \<open>A relationship dictionary; \<open>spans_chunks\<close>, \<open>chunk_rowids\<close>,
  \<open>primary_chunk_rowid\<close> and \<open>num_chunks_involved\<close> are the keys the mapper adds
  (absent before). The entity types and spans it also carries are read by no one.\<close>

record relationship =
  rel_subject_text :: string
  rel_subject_normalized :: string
  rel_predicate :: string
  rel_object_text :: string
  rel_object_normalized :: string
  rel_confidence :: real
  rel_context :: string
  spans_chunks :: bool
  chunk_rowids :: "int list"
  primary_chunk_rowid :: "int option"
  num_chunks_involved :: nat

text \<open>The keys of a dictionary built from a list, in insertion order.\<close>

definition dict_keys :: "'a list \<Rightarrow> 'a list" where
  "dict_keys xs = rev (remdups (rev xs))"

definition get_chunk_index :: "int \<Rightarrow> chunk list \<Rightarrow> int" where
  "get_chunk_index rowid chunks =
     (case find (\<lambda>c. vector_rowid c = rowid) chunks of Some c \<Rightarrow> chunk_index c | None \<Rightarrow> 0)"

text \<open>The double loop of \<open>_find_primary_chunk\<close> over the pairs of chunks; the state is
  \<open>(min_distance, primary_rowid)\<close>, with \<open>None\<close> for the initial infinite distance.\<close>

fun closest_pair ::
  "chunk list \<Rightarrow> (int \<times> int) list \<Rightarrow> int option \<times> int option \<Rightarrow> int option \<times> int option" where
  "closest_pair chunks [] st = st"
| "closest_pair chunks ((subj_rowid, obj_rowid) # ps) (min_distance, primary_rowid) =
     (let distance = \<bar>get_chunk_index subj_rowid chunks - get_chunk_index obj_rowid chunks\<bar>
      in if (case min_distance of None \<Rightarrow> True | Some d \<Rightarrow> distance < d)
         then closest_pair chunks ps (Some distance, Some (min subj_rowid obj_rowid))
         else closest_pair chunks ps (min_distance, primary_rowid))"

definition find_primary_chunk :: "entity \<Rightarrow> entity \<Rightarrow> chunk list \<Rightarrow> int option" where
  "find_primary_chunk subject_entity object_entity chunks =
     (let subject_chunks = dict_keys (map app_vector_rowid (chunk_appearances subject_entity));
          object_chunks = dict_keys (map app_vector_rowid (chunk_appearances object_entity));
          shared = filter (\<lambda>r. r \<in> set object_chunks) subject_chunks
      in if shared \<noteq> [] then Some (Min (set shared))
         else if subject_chunks \<noteq> [] \<and> object_chunks \<noteq> []
         then snd (closest_pair chunks
                     (concat (map (\<lambda>s. map (\<lambda>ob. (s, ob)) object_chunks) subject_chunks))
                     (None, None))
         else if subject_chunks \<noteq> [] then Some (Min (set subject_chunks))
         else if object_chunks \<noteq> [] then Some (Min (set object_chunks))
         else None)"

text \<open>\<open>entity_lookup\<close>: a later entity with the same \<open>normalized\<close> key replaces an
  earlier one.\<close>

definition entity_lookup :: "entity list \<Rightarrow> string \<Rightarrow> entity option" where
  "entity_lookup entity_chunk_map n = find (\<lambda>e. normalized e = n) (rev entity_chunk_map)"

definition map_relationship :: "entity list \<Rightarrow> chunk list \<Rightarrow> relationship \<Rightarrow> relationship option" where
  "map_relationship entity_chunk_map chunks rel =
     (case (entity_lookup entity_chunk_map (rel_subject_normalized rel),
            entity_lookup entity_chunk_map (rel_object_normalized rel)) of
        (Some subject_entity, Some object_entity) \<Rightarrow>
          (let subject_chunks = map app_vector_rowid (chunk_appearances subject_entity);
               object_chunks = map app_vector_rowid (chunk_appearances object_entity);
               rowids = sort (remdups (subject_chunks @ object_chunks))
           in Some (rel \<lparr> spans_chunks := (set subject_chunks \<inter> set object_chunks = {}),
                          chunk_rowids := rowids,
                          primary_chunk_rowid := find_primary_chunk subject_entity object_entity chunks,
                          num_chunks_involved := length rowids \<rparr>))
      | _ \<Rightarrow> None)"

definition map_relationships_to_chunks ::
  "relationship list \<Rightarrow> entity list \<Rightarrow> chunk list \<Rightarrow> relationship list" where
  "map_relationships_to_chunks relationships entity_chunk_map chunks =
     (if chunks = [] then relationships
      else List.map_filter (map_relationship entity_chunk_map chunks) relationships)"

section \<open>Unified extractor: the gate and \<open>extract_kg\<close>\<close>

text \<open>The four counters of the extractor class and \<open>_update_metrics\<close>; an action
  string other than the four known ones changes nothing.\<close>

record metrics =
  active_extractions :: int
  total_queued :: int
  total_completed :: int
  total_failed :: int

datatype action = Queue | Start | Complete | Fail | Other string

fun update_metrics :: "metrics \<Rightarrow> action \<Rightarrow> metrics" where
  "update_metrics m Queue = m \<lparr> total_queued := total_queued m + 1 \<rparr>"
| "update_metrics m Start = m \<lparr> active_extractions := active_extractions m + 1 \<rparr>"
| "update_metrics m Complete =
     m \<lparr> active_extractions := active_extractions m - 1, total_completed := total_completed m + 1 \<rparr>"
| "update_metrics m Fail =
     m \<lparr> active_extractions := active_extractions m - 1, total_failed := total_failed m + 1 \<rparr>"
| "update_metrics m (Other a) = m"

definition initial_metrics :: metrics where
  "initial_metrics = \<lparr> active_extractions = 0, total_queued = 0, total_completed = 0, total_failed = 0 \<rparr>"

text \<open>
  \<open>extract_kg\<close>, for one caller running alone. The completion of the language model
  (\<open>vllm_client.complete\<close> on the prompt built from the text) and the result of
  \<open>_parse_llm_response\<close> are taken as given: each is a value or an exception. The
  function returns the pair of lists and the counters it leaves.
\<close>

definition extract_kg ::
  "metrics \<Rightarrow> (string \<Rightarrow> py_error + string)
     \<Rightarrow> (string \<Rightarrow> string \<Rightarrow> py_error + entity list \<times> relationship list)
     \<Rightarrow> string \<Rightarrow> (entity list \<times> relationship list) \<times> metrics" where
  "extract_kg m llm_complete parse_llm_response text =
     (if text = [] \<or> py_strip text = [] then (([], []), m)
      else
        (let m1 = update_metrics m Queue;
             m2 = update_metrics m1 Start
         in case llm_complete text of
              Inl e \<Rightarrow> (([], []), update_metrics m2 Fail)
            | Inr response \<Rightarrow>
                (case parse_llm_response response text of
                   Inl e \<Rightarrow> (([], []), update_metrics m2 Fail)
                 | Inr (entities, relationships) \<Rightarrow>
                     ((entities, relationships), update_metrics m2 Complete))))"

section \<open>Pipeline orchestrator (pipeline/processor.py)\<close>

text \<open>\<open>_store_in_neo4j\<close>: the three loops, each threading the graph. A failing query
  leaves the graph as the earlier writes made it. The counts it also returns are only
  logged.\<close>

fun store_chunks ::
  "graph \<Rightarrow> node_key \<Rightarrow> chunk list \<Rightarrow> (int \<rightharpoonup> node_key)
     \<Rightarrow> graph \<times> (py_error + (int \<rightharpoonup> node_key))" where
  "store_chunks g doc_node_id [] chunk_node_map = (g, Inr chunk_node_map)"
| "store_chunks g doc_node_id (c # cs) chunk_node_map =
     (case create_chunk g doc_node_id (vector_rowid c) (chunk_index c) (char_start c) (char_end c)
             (take 200 (chunk_text c)) of
        Inl e \<Rightarrow> (g, Inl e)
      | Inr (g', chunk_node_id) \<Rightarrow>
          store_chunks g' doc_node_id cs (chunk_node_map(vector_rowid c \<mapsto> chunk_node_id)))"

fun link_appearances ::
  "graph \<Rightarrow> (int \<rightharpoonup> node_key) \<Rightarrow> node_key \<Rightarrow> entity \<Rightarrow> appearance list \<Rightarrow> graph" where
  "link_appearances g chunk_node_map entity_node_id e [] = g"
| "link_appearances g chunk_node_map entity_node_id e (a # as) =
     (case chunk_node_map (app_vector_rowid a) of
        None \<Rightarrow> link_appearances g chunk_node_map entity_node_id e as
      | Some chunk_node_id \<Rightarrow>
          link_appearances
            (link_entity_to_chunk g entity_node_id chunk_node_id (offset_start a) (offset_end a)
               (confidence e) (context_before e) (context_after e) (sentence e))
            chunk_node_map entity_node_id e as)"

fun store_entities :: "graph \<Rightarrow> (int \<rightharpoonup> node_key) \<Rightarrow> entity list \<Rightarrow> graph" where
  "store_entities g chunk_node_map [] = g"
| "store_entities g chunk_node_map (e # es) =
     (case create_entity g (ent_text e) (normalized e) (type_primary e) (type_sub1 e)
             (type_sub2 e) (type_sub3 e) (type_full e) (confidence e) of
        (g', entity_node_id) \<Rightarrow>
          store_entities (link_appearances g' chunk_node_map entity_node_id e (chunk_appearances e))
            chunk_node_map es)"

fun store_relationships :: "(string \<Rightarrow> string) \<Rightarrow> graph \<Rightarrow> relationship list \<Rightarrow> graph" where
  "store_relationships str_upper g [] = g"
| "store_relationships str_upper g (r # rs) =
     store_relationships str_upper
       (create_relationship str_upper g (rel_subject_normalized r) (rel_predicate r)
          (rel_object_normalized r) (rel_confidence r) (rel_context r)) rs"

definition store_in_neo4j ::
  "(string \<Rightarrow> string) \<Rightarrow> graph \<Rightarrow> int \<Rightarrow> string \<Rightarrow> string \<Rightarrow> chunk list \<Rightarrow> entity list \<Rightarrow> relationship list
     \<Rightarrow> graph \<times> (py_error + node_key)" where
  "store_in_neo4j str_upper g cid u t chunks entities relationships =
     (case create_document g cid u t of
        (g1, doc_node_id) \<Rightarrow>
          (case store_chunks g1 doc_node_id chunks Map.empty of
             (g2, Inl e) \<Rightarrow> (g2, Inl e)
           | (g2, Inr chunk_node_map) \<Rightarrow>
               (store_relationships str_upper (store_entities g2 chunk_node_map entities) relationships,
                Inr doc_node_id)))"

text \<open>The request body of the ingest endpoint, and the result dictionary of
  \<open>process_document\<close> (timing and the summary statistics are left out).\<close>

record ingest_request =
  req_content_id :: int
  req_url :: string
  req_title :: string
  req_markdown :: string
  req_chunks :: "chunk list"

record process_result =
  success :: bool
  res_content_id :: int
  neo4j_document_id :: node_key
  entities_extracted :: nat
  relationships_extracted :: nat
  res_entities :: "entity list"
  res_relationships :: "relationship list"

text \<open>Steps 3 and 4 and the response of \<open>process_document\<close>, from the extracted lists.\<close>

definition process_extracted ::
  "(string \<Rightarrow> string) \<Rightarrow> graph \<Rightarrow> ingest_request \<Rightarrow> entity list \<Rightarrow> relationship list
     \<Rightarrow> graph \<times> (py_error + process_result)" where
  "process_extracted str_upper g req entities relationships =
     (let mapped_entities = map_entities_to_chunks entities (req_chunks req);
          mapped_relationships =
            map_relationships_to_chunks relationships mapped_entities (req_chunks req)
      in case store_in_neo4j str_upper g (req_content_id req) (req_url req) (req_title req)
                (req_chunks req) mapped_entities mapped_relationships of
           (g', Inl e) \<Rightarrow> (g', Inl e)
         | (g', Inr doc_node_id) \<Rightarrow>
             (g', Inr \<lparr> success = True, res_content_id = req_content_id req,
                        neo4j_document_id = doc_node_id,
                        entities_extracted = length mapped_entities,
                        relationships_extracted = length mapped_relationships,
                        res_entities = mapped_entities,
                        res_relationships = mapped_relationships \<rparr>))"

text \<open>\<open>process_document\<close> with \<open>USE_GLINER_ENTITIES\<close> off: the unified extractor, then
  mapping and storage. The state is the graph and the extractor's counters.\<close>

definition process_document ::
  "(string \<Rightarrow> string) \<Rightarrow> graph \<Rightarrow> metrics \<Rightarrow> (string \<Rightarrow> py_error + string)
     \<Rightarrow> (string \<Rightarrow> string \<Rightarrow> py_error + entity list \<times> relationship list)
     \<Rightarrow> ingest_request \<Rightarrow> (graph \<times> metrics) \<times> (py_error + process_result)" where
  "process_document str_upper g m llm_complete parse_llm_response req =
     (case extract_kg m llm_complete parse_llm_response (req_markdown req) of
        ((entities, relationships), m') \<Rightarrow>
          (case process_extracted str_upper g req entities relationships of
             (g', r) \<Rightarrow> ((g', m'), r)))"

text \<open>A chunk of a request is persisted: its node exists and the document has a
  \<open>HAS_CHUNK\<close> edge to it.\<close>

definition chunk_persisted :: "graph \<Rightarrow> int \<Rightarrow> chunk \<Rightarrow> bool" where
  "chunk_persisted g cid c \<longleftrightarrow>
     has_node g (ChunkNode (vector_rowid c))
     \<and> (\<exists>e \<in> set (edges g). is_edge (DocumentNode cid) ''HAS_CHUNK'' (ChunkNode (vector_rowid c)) e)"

definition example_request :: ingest_request where
  "example_request =
     \<lparr> req_content_id = 123, req_url = ''https://docs.example.org/kg'',
       req_title = ''Knowledge graph service'',
       req_markdown = ''The knowledge graph extraction service stores entities in Neo4j.'',
       req_chunks = [example_ingest_chunk] \<rparr>"

definition failing_llm :: "string \<Rightarrow> py_error + string" where
  "failing_llm prompt = Inl ModelUnavailableError"

definition no_parse :: "string \<Rightarrow> string \<Rightarrow> py_error + entity list \<times> relationship list" where
  "no_parse response text = Inl JSONDecodeError"

section \<open>Enhanced search: the graph query and the endpoint (api/enhanced\_search.py)\<close>

text \<open>\<open>OPTIONAL MATCH\<close>: the matches of the pattern, or one row of nulls when there are none.\<close>

definition optional_match :: "'a list \<Rightarrow> 'a option list" where
  "optional_match matches = (if matches = [] then [None] else map Some matches)"

text \<open>The chunks an entity has a \<open>MENTIONED_IN\<close> edge to.\<close>

definition mentioned_in :: "graph \<Rightarrow> entity_node \<Rightarrow> chunk_node list" where
  "mentioned_in g e =
     [c. ed \<leftarrow> edges g, src ed = EntityNode (en_normalized e) \<and> label ed = ''MENTIONED_IN'',
         c \<leftarrow> chunk_nodes g, dst ed = ChunkNode (cn_vector_rowid c)]"

text \<open>The documents a chunk has a \<open>PART_OF\<close> edge to.\<close>

definition part_of :: "graph \<Rightarrow> chunk_node \<Rightarrow> document_node list" where
  "part_of g c =
     [d. ed \<leftarrow> edges g, src ed = ChunkNode (cn_vector_rowid c) \<and> label ed = ''PART_OF'',
         d \<leftarrow> documents g, dst ed = DocumentNode (content_id d)]"

text \<open>The matches of the pattern
  \<open>(entity)-[:MENTIONED_IN]->(chunk:Chunk)-[:PART_OF]->(doc:Document)\<close> of steps 2 and 5.\<close>

definition chunk_matches :: "graph \<Rightarrow> entity_node \<Rightarrow> (chunk_node \<times> document_node) list" where
  "chunk_matches g e = [(c, d). c \<leftarrow> mentioned_in g e, d \<leftarrow> part_of g c]"

text \<open>Step 3: the entities mentioned in a chunk whose text is not a search term.\<close>

definition cooccurring :: "graph \<Rightarrow> string list \<Rightarrow> chunk_node \<Rightarrow> entity_node list" where
  "cooccurring g search_terms c =
     [e. ed \<leftarrow> edges g, label ed = ''MENTIONED_IN'' \<and> dst ed = ChunkNode (cn_vector_rowid c),
         e \<leftarrow> entity_nodes g,
         src ed = EntityNode (en_normalized e) \<and> en_text e \<notin> set search_terms]"

text \<open>
  The rows the five matches produce. \<open>search_chunk\<close> binds the chunk together with its
  document, as the pattern does. Step 4 (the relationships between search entities) adds
  columns the scorer never reads and repeats rows, which every \<open>DISTINCT\<close> below
  removes again; it is left out.
\<close>

record query_row =
  search_entity :: entity_node
  search_chunk :: "(chunk_node \<times> document_node) option"
  cooccur_entity :: "entity_node option"
  expanded_chunk :: "(chunk_node \<times> document_node) option"

definition query_rows :: "graph \<Rightarrow> string list \<Rightarrow> query_row list" where
  "query_rows g search_terms =
     [\<lparr> search_entity = e, search_chunk = sc, cooccur_entity = co, expanded_chunk = ex \<rparr>.
        e \<leftarrow> entity_nodes g, en_text e \<in> set search_terms,
        sc \<leftarrow> optional_match (chunk_matches g e),
        co \<leftarrow> optional_match (case sc of None \<Rightarrow> [] | Some (c, d) \<Rightarrow> cooccurring g search_terms c),
        ex \<leftarrow> optional_match (case co of None \<Rightarrow> [] | Some e' \<Rightarrow> chunk_matches g e')]"

text \<open>
  The map the query builds for a chunk and its document (all null when the chunk is). Its
  \<open>text\<close> is the chunk node's property \<open>text\<close>, which no chunk node has: the store
  adapter sets \<open>text_preview\<close>.
\<close>

definition chunk_map ::
  "(chunk_node \<times> document_node) option \<Rightarrow> string list \<Rightarrow> string list \<Rightarrow> result_chunk" where
  "chunk_map m ss es =
     \<lparr> rc_chunk_id = map_option (\<lambda>(c, d). ChunkNode (cn_vector_rowid c)) m,
       rc_vector_rowid = map_option (\<lambda>(c, d). cn_vector_rowid c) m,
       rc_chunk_index = map_option (\<lambda>(c, d). cn_chunk_index c) m,
       rc_text = None,
       rc_doc_url = map_option (\<lambda>(c, d). url d) m,
       rc_search_entities = ss, rc_expanded_entities = es \<rparr>"

text \<open>
  \<open>_execute_enhanced_query\<close>. The query collects, for each distinct chunk of the rows,
  one map holding the distinct names of the search entities (of the co-occurring entities
  for an expansion chunk) found with that chunk.
\<close>

definition execute_enhanced_query :: "graph \<Rightarrow> string list \<Rightarrow> int \<Rightarrow> query_result" where
  "execute_enhanced_query g search_terms max_chunks =
     (let rows = query_rows g search_terms
      in \<lparr> search_chunks =
             map (\<lambda>m. chunk_map m
                         (dict_keys [en_text (search_entity r). r \<leftarrow> rows, search_chunk r = m]) [])
               (dict_keys (map search_chunk rows)),
           expanded_chunks =
             map (\<lambda>m. chunk_map m []
                         (dict_keys [en_text e. r \<leftarrow> rows, expanded_chunk r = m,
                                                e \<leftarrow> (case cooccur_entity r of None \<Rightarrow> [] | Some e \<Rightarrow> [e])]))
               (dict_keys (map expanded_chunk rows)) \<rparr>)"

text \<open>The request model \<open>EnhancedSearchRequest\<close> and its field constraints.\<close>

record search_request =
  sr_query :: string
  sr_search_term_entities :: "string list"
  sr_max_chunks :: int

definition search_request_valid :: "search_request \<Rightarrow> bool" where
  "search_request_valid request \<longleftrightarrow>
     1 \<le> length (sr_search_term_entities request)
     \<and> 1 \<le> sr_max_chunks request \<and> sr_max_chunks request \<le> 500"

text \<open>The response model \<open>ChunkScore\<close>: the fields typed \<open>str\<close> and \<open>int\<close> reject null
  with a validation error, which is a \<open>ValueError\<close>.\<close>

record chunk_score =
  cs_chunk_id :: node_key
  cs_vector_rowid :: int
  cs_chunk_index :: int
  cs_chunk_text :: string
  cs_document_url :: string
  cs_expansion_score :: real
  cs_search_entity_count :: nat
  cs_expanded_entity_count :: nat
  cs_relationship_count :: nat

definition ChunkScore :: "scored_chunk \<Rightarrow> py_error + chunk_score" where
  "ChunkScore c =
     (case (sc_chunk_id c, sc_chunk_index c, sc_document_url c) of
        (Some i, Some n, Some u) \<Rightarrow>
          Inr \<lparr> cs_chunk_id = i, cs_vector_rowid = sc_vector_rowid c, cs_chunk_index = n,
                cs_chunk_text = sc_chunk_text c, cs_document_url = u,
                cs_expansion_score = expansion_score c,
                cs_search_entity_count = search_entity_count c,
                cs_expanded_entity_count = expanded_entity_count c,
                cs_relationship_count = relationship_count c \<rparr>
      | _ \<Rightarrow> Inl ValueError)"

text \<open>The comprehension \<open>[ChunkScore(**chunk) for chunk in top_chunks]\<close>.\<close>

fun chunk_scores :: "scored_chunk list \<Rightarrow> py_error + chunk_score list" where
  "chunk_scores [] = Inr []"
| "chunk_scores (c # cs) =
     (case ChunkScore c of
        Inl e \<Rightarrow> Inl e
      | Inr x \<Rightarrow> (case chunk_scores cs of Inl e \<Rightarrow> Inl e | Inr xs \<Rightarrow> Inr (x # xs)))"

text \<open>The response \<open>EnhancedSearchResponse\<close>, with the counts of \<open>stats\<close> (the entity
  counts and the execution time are left out).\<close>

record search_response =
  resp_success :: bool
  resp_query :: string
  resp_chunks :: "chunk_score list"
  total_chunks :: nat
  total_chunks_found :: nat
  chunks_returned :: nat
  multi_entity_chunks :: nat
  single_entity_chunks :: nat
  expansion_only_chunks :: nat

text \<open>The body of the \<open>try\<close> of \<open>enhanced_kg_search\<close> behind the query: scoring, the
  slice to \<open>max_chunks\<close>, the statistics and the response.\<close>

definition search_response_of :: "query_result \<Rightarrow> search_request \<Rightarrow> py_error + search_response" where
  "search_response_of query_result request =
     (case score_and_rank_chunks query_result of
        Inl e \<Rightarrow> Inl e
      | Inr scored_chunks \<Rightarrow>
          (let top_chunks = py_prefix (sr_max_chunks request) scored_chunks
           in case chunk_scores top_chunks of
                Inl e \<Rightarrow> Inl e
              | Inr chunks \<Rightarrow>
                  Inr \<lparr> resp_success = True, resp_query = sr_query request, resp_chunks = chunks,
                        total_chunks = length top_chunks,
                        total_chunks_found = length scored_chunks,
                        chunks_returned = length top_chunks,
                        multi_entity_chunks = length (filter (\<lambda>c. search_entity_count c \<ge> 2) top_chunks),
                        single_entity_chunks = length (filter (\<lambda>c. search_entity_count c = 1) top_chunks),
                        expansion_only_chunks = length (filter (\<lambda>c. search_entity_count c = 0) top_chunks) \<rparr>))"

text \<open>\<open>enhanced_kg_search\<close>: every exception of the body becomes the status 500.\<close>

definition enhanced_kg_search :: "graph \<Rightarrow> search_request \<Rightarrow> py_error + search_response" where
  "enhanced_kg_search g request =
     (case search_response_of
             (execute_enhanced_query g (sr_search_term_entities request) (sr_max_chunks request))
             request of
        Inl e \<Rightarrow> Inl (HTTPException 500)
      | Inr response \<Rightarrow> Inr response)"

text \<open>An edge that leaves a chunk node, and a graph without such edges.\<close>

definition from_chunk :: "edge \<Rightarrow> bool" where
  "from_chunk e = (case src e of ChunkNode r \<Rightarrow> True | _ \<Rightarrow> False)"

definition no_edge_from_chunk :: "graph \<Rightarrow> bool" where
  "no_edge_from_chunk g = list_all (\<lambda>e. \<not> from_chunk e) (edges g)"

text \<open>
  A document of two chunks and the two entities extracted from it. The mapper places
  both entities at the start of the document, so the graph records both in the first
  chunk and the longer one also in the second.
\<close>

definition search_example_request :: ingest_request where
  "search_example_request =
     \<lparr> req_content_id = 7, req_url = ''https://docs.example.org/drivers'',
       req_title = ''Drivers'',
       req_markdown = ''Python programming language drivers connect applications to the Neo4j graph database.'',
       req_chunks =
         [\<lparr> vector_rowid = 1, chunk_index = 0, char_start = 0, char_end = 12,
            chunk_text = ''Python progr'' \<rparr>,
          \<lparr> vector_rowid = 2, chunk_index = 1, char_start = 12, char_end = 85,
            chunk_text = ''amming language drivers connect applications to the Neo4j graph database.'' \<rparr>] \<rparr>"

definition search_example_entity :: "string \<Rightarrow> string \<Rightarrow> int \<Rightarrow> entity" where
  "search_example_entity name key pos =
     \<lparr> ent_text = name, normalized = key, ent_start = pos, ent_end = pos + int (length name),
       type_primary = ''Technology'', type_sub1 = None, type_sub2 = None, type_sub3 = None,
       type_full = ''Technology'', confidence = 0.9, context_before = '''',
       context_after = '''', sentence = '''',
       occurrences = [], start_pos = None, end_pos = None, chunk_appearances = [],
       spans_multiple_chunks = False, num_chunks = 0 \<rparr>"

definition search_example_llm :: "string \<Rightarrow> py_error + string" where
  "search_example_llm prompt = Inr ''{}''"

definition search_example_parse ::
  "string \<Rightarrow> string \<Rightarrow> py_error + entity list \<times> relationship list" where
  "search_example_parse response text =
     Inr ([search_example_entity ''Neo4j graph database'' ''neo4j graph database'' 64,
           search_example_entity ''Python programming language'' ''python programming language'' 0], [])"

definition search_example_graph :: graph where
  "search_example_graph =
     fst (fst (process_document ascii_upper empty_graph initial_metrics search_example_llm
                 search_example_parse search_example_request))"

definition search_example_search :: search_request where
  "search_example_search =
     \<lparr> sr_query = ''Neo4j Python drivers'',
       sr_search_term_entities = [''Neo4j graph database'', ''Python programming language''],
       sr_max_chunks = 100 \<rparr>"


section \<open>The ingest endpoint (api/server.py, api/models.py)\<close>

text \<open>The validator \<open>validate_chunks_ordered\<close>: chunk indices strictly increase.\<close>

fun chunks_ordered :: "chunk list \<Rightarrow> bool" where
  "chunks_ordered (a # b # cs) = (chunk_index a < chunk_index b \<and> chunks_ordered (b # cs))"
| "chunks_ordered cs = True"

text \<open>The constraints of the request model \<open>IngestRequest\<close>: the field bounds, the
  bounds of each chunk, and the validators of \<open>url\<close> and \<open>chunks\<close>. A request that
  violates them is answered 422 by the framework before the handler runs.\<close>

definition request_valid :: "ingest_request \<Rightarrow> bool" where
  "request_valid request \<longleftrightarrow>
     req_content_id request > 0
     \<and> length (req_url request) \<le> 2048
     \<and> (prefix ''http://'' (req_url request) \<or> prefix ''https://'' (req_url request))
     \<and> length (req_title request) \<le> 500
     \<and> 50 \<le> length (req_markdown request) \<and> length (req_markdown request) \<le> 1000000
     \<and> 1 \<le> length (req_chunks request) \<and> length (req_chunks request) \<le> 1000
     \<and> list_all chunk_metadata_valid (req_chunks request)
     \<and> chunks_ordered (req_chunks request)"

text \<open>
  The body of the \<open>try\<close> of \<open>ingest_document\<close>. The global \<open>kg_processor\<close> is
  \<open>None\<close> until the startup hook has set it; when set, its \<open>process_document\<close> returns
  a result or raises.
\<close>

definition ingest_try ::
  "(ingest_request \<Rightarrow> py_error + process_result) option \<Rightarrow> ingest_request
     \<Rightarrow> py_error + process_result" where
  "ingest_try kg_processor request =
     (case kg_processor of
        None \<Rightarrow> Inl (HTTPException 503)
      | Some processor \<Rightarrow> processor request)"

text \<open>\<open>ingest_document\<close>: the handler \<open>except Exception\<close> encloses the whole body,
  the check of the processor included, and \<open>HTTPException\<close> is an \<open>Exception\<close>.\<close>

definition ingest_document ::
  "(ingest_request \<Rightarrow> py_error + process_result) option \<Rightarrow> ingest_request
     \<Rightarrow> py_error + process_result" where
  "ingest_document kg_processor request =
     (case ingest_try kg_processor request of
        Inl e \<Rightarrow> Inl (HTTPException 500)
      | Inr result \<Rightarrow> Inr result)"

text \<open>The exception handlers of the application: an \<open>HTTPException\<close> is answered with
  its status code, any other exception with 500.\<close>

fun exception_status :: "py_error \<Rightarrow> nat" where
  "exception_status (HTTPException code) = code"
| "exception_status e = 500"

text \<open>\<open>POST /api/v1/ingest\<close>: the status code and the body of the answer.\<close>

definition post_ingest ::
  "(ingest_request \<Rightarrow> py_error + process_result) option \<Rightarrow> ingest_request
     \<Rightarrow> nat \<times> process_result option" where
  "post_ingest kg_processor request =
     (if \<not> request_valid request then (422, None)
      else case ingest_document kg_processor request of
             Inl e \<Rightarrow> (exception_status e, None)
           | Inr result \<Rightarrow> (200, Some result))"

section \<open>Entity positions (extractors/kg\_extractor.py, extractors/entity\_extractor.py)\<close>

text \<open>\<open>str.find\<close>: the lowest index at which the substring occurs, or \<open>-1\<close>.\<close>

fun py_find_from :: "int \<Rightarrow> string \<Rightarrow> string \<Rightarrow> int" where
  "py_find_from i [] sub = (if sub = [] then i else -1)"
| "py_find_from i (c # cs) sub =
     (if prefix sub (c # cs) then i else py_find_from (i + 1) cs sub)"

definition py_find :: "string \<Rightarrow> string \<Rightarrow> int" where
  "py_find s sub = py_find_from 0 s sub"

text \<open>The slice \<open>s[a:b]\<close>; a negative index counts from the end.\<close>

definition py_index :: "'a list \<Rightarrow> int \<Rightarrow> nat" where
  "py_index xs i = (if i < 0 then nat (max 0 (int (length xs) + i)) else min (nat i) (length xs))"

definition py_slice :: "'a list \<Rightarrow> int \<Rightarrow> int \<Rightarrow> 'a list" where
  "py_slice xs a b = take (py_index xs b - py_index xs a) (drop (py_index xs a) xs)"

text \<open>
  The position of an entity in \<open>_process_entities\<close>: the one the model gave, else the
  first occurrence of the entity text; when that is no valid span, the first occurrence of
  the normalized name in the lower-cased text (the substring-recovery fallback), and
  without one the entity is dropped. \<open>str.lower\<close> is a parameter.
\<close>

definition entity_position ::
  "(string \<Rightarrow> string) \<Rightarrow> string \<Rightarrow> string \<Rightarrow> int option \<Rightarrow> int option \<Rightarrow> (int \<times> int) option" where
  "entity_position str_lower text entity_text llm_start llm_end =
     (let normalized = py_strip (str_lower entity_text);
          start_pos = (case llm_start of Some s \<Rightarrow> s | None \<Rightarrow> py_find text entity_text);
          end_pos = (case llm_end of Some e \<Rightarrow> e | None \<Rightarrow> start_pos + int (length entity_text))
      in if start_pos < 0 \<or> end_pos < 0 \<or> start_pos \<ge> end_pos
         then (let start_pos = py_find (str_lower text) normalized
               in if start_pos \<ge> 0 then Some (start_pos, start_pos + int (length entity_text))
                  else None)
         else Some (start_pos, end_pos))"

text \<open>\<open>str.split()\<close>: the words between runs of whitespace; \<open>cur\<close> is the word being
  read, reversed.\<close>

fun split_words :: "string \<Rightarrow> string \<Rightarrow> string list" where
  "split_words cur [] = (if cur = [] then [] else [rev cur])"
| "split_words cur (c # cs) =
     (if py_isspace c
      then (if cur = [] then split_words [] cs else rev cur # split_words [] cs)
      else split_words (c # cur) cs)"

definition py_split :: "string \<Rightarrow> string list" where
  "py_split s = split_words [] s"

text \<open>\<open>sep.join(words)\<close>.\<close>

fun py_join :: "string \<Rightarrow> string list \<Rightarrow> string" where
  "py_join sep [] = []"
| "py_join sep [w] = w"
| "py_join sep (w # v # ws) = w @ sep @ py_join sep (v # ws)"

text \<open>A segment of \<open>_chunk_text_for_gliner\<close>, and its loop over the words; the loop state
  is \<open>(chunks, current_chunk, current_length, char_position)\<close>.\<close>

record gliner_chunk =
  gc_text :: string
  gc_char_start :: int
  gc_char_end :: int

fun gliner_loop ::
  "int \<Rightarrow> string list \<Rightarrow> gliner_chunk list \<times> string list \<times> int \<times> int
     \<Rightarrow> gliner_chunk list \<times> string list \<times> int \<times> int" where
  "gliner_loop max_chars [] st = st"
| "gliner_loop max_chars (word # words) (chunks, current_chunk, current_length, char_position) =
     (let word_len = int (length word) + 1
      in if current_length + word_len > max_chars \<and> current_chunk \<noteq> []
         then (let chunk_text = py_join '' '' current_chunk
               in gliner_loop max_chars words
                    (chunks @ [\<lparr> gc_text = chunk_text, gc_char_start = char_position,
                                 gc_char_end = char_position + int (length chunk_text) \<rparr>],
                     [word], word_len, char_position + int (length chunk_text) + 1))
         else gliner_loop max_chars words
                (chunks, current_chunk @ [word], current_length + word_len, char_position))"

definition chunk_text_for_gliner :: "string \<Rightarrow> int \<Rightarrow> gliner_chunk list" where
  "chunk_text_for_gliner text max_chars =
     (case gliner_loop max_chars (py_split text) ([], [], 0, 0) of
        (chunks, current_chunk, current_length, char_position) \<Rightarrow>
          if current_chunk \<noteq> []
          then (let chunk_text = py_join '' '' current_chunk
                in chunks @ [\<lparr> gc_text = chunk_text, gc_char_start = char_position,
                                gc_char_end = char_position + int (length chunk_text) \<rparr>])
          else chunks)"

text \<open>A prediction of the recognition model, and the predictions \<open>extract\<close> works on:
  a text longer than 1500 characters is segmented, the model (a parameter) runs on each
  segment, and the spans are shifted by the segment's \<open>char_start\<close>.\<close>

record prediction =
  pred_text :: string
  pred_start :: int
  pred_end :: int
  pred_label :: string

definition gliner_predictions :: "(string \<Rightarrow> prediction list) \<Rightarrow> string \<Rightarrow> prediction list" where
  "gliner_predictions predict_entities text =
     (if length text > 1500
      then concat (map (\<lambda>chunk.
                     map (\<lambda>pred. pred \<lparr> pred_start := pred_start pred + gc_char_start chunk,
                                         pred_end := pred_end pred + gc_char_start chunk \<rparr>)
                       (predict_entities (gc_text chunk)))
                   (chunk_text_for_gliner text 1000))
      else predict_entities text)"

text \<open>A document of one chunk that holds the whole text, and the entity the unified
  extractor finds in it.\<close>

definition located_example_request :: ingest_request where
  "located_example_request =
     \<lparr> req_content_id = 123, req_url = ''https://docs.example.org/kg'',
       req_title = ''Knowledge graph service'',
       req_markdown = ''The knowledge graph extraction service stores entities in Neo4j.'',
       req_chunks =
         [\<lparr> vector_rowid = 45001, chunk_index = 0, char_start = 0, char_end = 64,
            chunk_text = ''The knowledge graph extraction service stores entities in Neo4j.'' \<rparr>] \<rparr>"

definition located_example_llm :: "string \<Rightarrow> py_error + string" where
  "located_example_llm prompt = Inr ''{}''"

definition located_example_parse ::
  "string \<Rightarrow> string \<Rightarrow> py_error + entity list \<times> relationship list" where
  "located_example_parse response text = Inr ([example_extracted_entity], [])"

text \<open>A text of two long words separated by two spaces, and a model that recognises the
  first ten characters of whatever it is given.\<close>

definition spaced_example :: string where
  "spaced_example = replicate 800 CHR ''a'' @ ''  '' @ replicate 800 CHR ''b''"

definition leading_predictor :: "string \<Rightarrow> prediction list" where
  "leading_predictor s =
     [\<lparr> pred_text = take 10 s, pred_start = 0, pred_end = 10, pred_label = ''Concept'' \<rparr>]"

section \<open>Unified extractor: the extraction gate under concurrency\<close>

text \<open>
  Several callers run \<open>extract_kg\<close> at once; they interleave at its \<open>await\<close> points.
  A caller with a non-empty text has counted itself as queued and waits for the
  semaphore (\<open>Queued\<close>), has entered \<open>async with semaphore\<close> (\<open>Acquired\<close>), has
  counted itself as started and is inside the \<open>try\<close> (\<open>Running\<close>), has counted itself
  as completed or as failed and is about to return (\<open>Completed\<close>, \<open>Failed\<close>), or has
  left the \<open>async with\<close> and returned its lists or the two empty lists
  (\<open>ReturnedResult\<close>, \<open>ReturnedEmpty\<close>).
\<close>

datatype phase = Queued | Acquired | Running | Completed | Failed | ReturnedResult | ReturnedEmpty

text \<open>The state shared by the callers: the value of the semaphore, the counters of the
  class, and the phase of every caller so far.\<close>

record gate =
  permits :: nat
  gate_metrics :: metrics
  callers :: "phase list"


text \<open>
  The steps of a caller, each atomic between two \<open>await\<close> points: a new caller counts
  itself as queued; caller \<open>i\<close> acquires the semaphore, which needs a permit; counts
  itself as started; the completion and the parsing succeed and it counts itself as
  completed; either of them raises and it counts itself as failed; it leaves the
  \<open>async with\<close>, which releases the semaphore. What is raised is an \<open>Exception\<close>;
  the cancellation of a caller's task is not an event of the model.
\<close>

datatype event = Submit | Acquire nat | Begin nat | Succeed nat | Raise nat | Release nat

definition advance :: "gate \<Rightarrow> nat \<Rightarrow> phase \<Rightarrow> phase \<Rightarrow> gate option" where
  "advance s i before after =
     (if i < length (callers s) \<and> callers s ! i = before
      then Some (s \<lparr> callers := (callers s)[i := after] \<rparr>)
      else None)"

fun fire :: "event \<Rightarrow> gate \<Rightarrow> gate option" where
  "fire Submit s =
     Some (s \<lparr> gate_metrics := update_metrics (gate_metrics s) Queue,
               callers := callers s @ [Queued] \<rparr>)"
| "fire (Acquire i) s =
     (if permits s > 0 then advance (s \<lparr> permits := permits s - 1 \<rparr>) i Queued Acquired else None)"
| "fire (Begin i) s =
     advance (s \<lparr> gate_metrics := update_metrics (gate_metrics s) Start \<rparr>) i Acquired Running"
| "fire (Succeed i) s =
     advance (s \<lparr> gate_metrics := update_metrics (gate_metrics s) Complete \<rparr>) i Running Completed"
| "fire (Raise i) s =
     advance (s \<lparr> gate_metrics := update_metrics (gate_metrics s) Fail \<rparr>) i Running Failed"
| "fire (Release i) s =
     (case advance (s \<lparr> permits := permits s + 1 \<rparr>) i Completed ReturnedResult of
        Some s' \<Rightarrow> Some s'
      | None \<Rightarrow> advance (s \<lparr> permits := permits s + 1 \<rparr>) i Failed ReturnedEmpty)"

text \<open>A schedule is a list of events; it runs as long as each event is enabled.\<close>

fun run :: "event list \<Rightarrow> gate \<Rightarrow> gate option" where
  "run [] s = Some s"
| "run (e # es) s = (case fire e s of None \<Rightarrow> None | Some s' \<Rightarrow> run es s')"












section \<open>Properties\<close>

lemma app_key_make_appearance: "app_key (make_appearance occ c) = chunk_key c"
  by (simp add: app_key_def make_appearance_def chunk_key_def)

lemma map_occurrence_step_hit:
  "overlapping occ c \<and> chunk_key c \<notin> seen \<Longrightarrow>
   map_occurrence occ (c # cs) (apps, seen)
     = map_occurrence occ cs (apps @ [make_appearance occ c], insert (chunk_key c) seen)"
  by (simp add: overlapping_def)

lemma map_occurrence_step_miss:
  "\<not> (overlapping occ c \<and> chunk_key c \<notin> seen) \<Longrightarrow>
   map_occurrence occ (c # cs) (apps, seen) = map_occurrence occ cs (apps, seen)"
  by (auto simp add: overlapping_def)

lemma map_occurrence_seen:
  "seen = app_key ` set apps \<Longrightarrow>
   snd (map_occurrence occ cs (apps, seen)) = app_key ` set (fst (map_occurrence occ cs (apps, seen)))"
proof (induction cs arbitrary: apps seen)
  case Nil
  then show ?case by simp
next
  case (Cons c cs)
  show ?case
  proof (cases "overlapping occ c \<and> chunk_key c \<notin> seen")
    case True
    have "insert (chunk_key c) seen = app_key ` set (apps @ [make_appearance occ c])"
      using Cons.prems by (simp add: app_key_make_appearance)
    from Cons.IH[OF this] show ?thesis
      by (simp only: map_occurrence_step_hit[OF True])
  next
    case False
    from Cons.IH[OF Cons.prems] show ?thesis
      by (simp only: map_occurrence_step_miss[OF False])
  qed
qed

lemma map_occurrence_distinct:
  "seen = app_key ` set apps \<Longrightarrow> distinct (map app_key apps) \<Longrightarrow>
   distinct (map app_key (fst (map_occurrence occ cs (apps, seen))))"
proof (induction cs arbitrary: apps seen)
  case Nil
  then show ?case by simp
next
  case (Cons c cs)
  show ?case
  proof (cases "overlapping occ c \<and> chunk_key c \<notin> seen")
    case True
    have p1: "insert (chunk_key c) seen = app_key ` set (apps @ [make_appearance occ c])"
      using Cons.prems by (simp add: app_key_make_appearance)
    have p2: "distinct (map app_key (apps @ [make_appearance occ c]))"
      using Cons.prems True by (simp add: app_key_make_appearance)
    from Cons.IH[OF p1 p2] show ?thesis
      by (simp only: map_occurrence_step_hit[OF True])
  next
    case False
    from Cons.IH[OF Cons.prems] show ?thesis
      by (simp only: map_occurrence_step_miss[OF False])
  qed
qed

lemma map_occurrence_keys:
  "seen = app_key ` set apps \<Longrightarrow>
   app_key ` set (fst (map_occurrence occ cs (apps, seen)))
     = seen \<union> {chunk_key c | c. c \<in> set cs \<and> overlapping occ c}"
proof (induction cs arbitrary: apps seen)
  case Nil
  then show ?case by simp
next
  case (Cons c cs)
  show ?case
  proof (cases "overlapping occ c \<and> chunk_key c \<notin> seen")
    case True
    have p1: "insert (chunk_key c) seen = app_key ` set (apps @ [make_appearance occ c])"
      using Cons.prems by (simp add: app_key_make_appearance)
    have "app_key ` set (fst (map_occurrence occ (c # cs) (apps, seen)))
        = insert (chunk_key c) seen \<union> {chunk_key c' | c'. c' \<in> set cs \<and> overlapping occ c'}"
      using Cons.IH[OF p1] by (simp only: map_occurrence_step_hit[OF True])
    also have "\<dots> = seen \<union> {chunk_key c' | c'. c' \<in> set (c # cs) \<and> overlapping occ c'}"
      using True by auto
    finally show ?thesis .
  next
    case False
    have "app_key ` set (fst (map_occurrence occ (c # cs) (apps, seen)))
        = seen \<union> {chunk_key c' | c'. c' \<in> set cs \<and> overlapping occ c'}"
      using Cons.IH[OF Cons.prems] by (simp only: map_occurrence_step_miss[OF False])
    also have "\<dots> = seen \<union> {chunk_key c' | c'. c' \<in> set (c # cs) \<and> overlapping occ c'}"
      using False by auto
    finally show ?thesis .
  qed
qed

lemma map_occurrence_elems:
  "set (fst (map_occurrence occ cs (apps, seen)))
     \<subseteq> set apps \<union> {make_appearance occ c | c. c \<in> set cs \<and> overlapping occ c}"
proof (induction cs arbitrary: apps seen)
  case Nil
  then show ?case by simp
next
  case (Cons c cs)
  show ?case
  proof (cases "overlapping occ c \<and> chunk_key c \<notin> seen")
    case True
    have "set (fst (map_occurrence occ (c # cs) (apps, seen)))
        \<subseteq> set (apps @ [make_appearance occ c]) \<union> {make_appearance occ c' | c'. c' \<in> set cs \<and> overlapping occ c'}"
      using Cons.IH[of "apps @ [make_appearance occ c]" "insert (chunk_key c) seen"]
      by (simp only: map_occurrence_step_hit[OF True])
    also have "\<dots> \<subseteq> set apps \<union> {make_appearance occ c' | c'. c' \<in> set (c # cs) \<and> overlapping occ c'}"
      using True by auto
    finally show ?thesis .
  next
    case False
    have "set (fst (map_occurrence occ (c # cs) (apps, seen)))
        \<subseteq> set apps \<union> {make_appearance occ c' | c'. c' \<in> set cs \<and> overlapping occ c'}"
      using Cons.IH[of apps seen] by (simp only: map_occurrence_step_miss[OF False])
    also have "\<dots> \<subseteq> set apps \<union> {make_appearance occ c' | c'. c' \<in> set (c # cs) \<and> overlapping occ c'}"
      by auto
    finally show ?thesis .
  qed
qed

lemma map_occurrences_seen:
  "snd st = app_key ` set (fst st) \<Longrightarrow>
   snd (map_occurrences occs cs st) = app_key ` set (fst (map_occurrences occs cs st))"
proof (induction occs arbitrary: st)
  case Nil
  then show ?case by simp
next
  case (Cons occ occs)
  obtain apps seen where st: "st = (apps, seen)" by (cases st)
  have "snd (map_occurrence occ cs st) = app_key ` set (fst (map_occurrence occ cs st))"
    using map_occurrence_seen[of seen apps occ cs] Cons.prems by (simp add: st)
  from Cons.IH[OF this] show ?case by simp
qed

lemma map_occurrences_distinct:
  "snd st = app_key ` set (fst st) \<Longrightarrow> distinct (map app_key (fst st)) \<Longrightarrow>
   distinct (map app_key (fst (map_occurrences occs cs st)))"
proof (induction occs arbitrary: st)
  case Nil
  then show ?case by simp
next
  case (Cons occ occs)
  obtain apps seen where st: "st = (apps, seen)" by (cases st)
  have a: "snd (map_occurrence occ cs st) = app_key ` set (fst (map_occurrence occ cs st))"
    using map_occurrence_seen[of seen apps occ cs] Cons.prems by (simp add: st)
  have b: "distinct (map app_key (fst (map_occurrence occ cs st)))"
    using map_occurrence_distinct[of seen apps occ cs] Cons.prems by (simp add: st)
  from Cons.IH[OF a b] show ?case by simp
qed

lemma map_occurrences_keys:
  "snd st = app_key ` set (fst st) \<Longrightarrow>
   app_key ` set (fst (map_occurrences occs cs st))
     = snd st \<union> {chunk_key c | c occ. c \<in> set cs \<and> occ \<in> set occs \<and> overlapping occ c}"
proof (induction occs arbitrary: st)
  case Nil
  then show ?case by simp
next
  case (Cons occ occs)
  obtain apps seen where st: "st = (apps, seen)" by (cases st)
  let ?st' = "map_occurrence occ cs st"
  have a: "snd ?st' = app_key ` set (fst ?st')"
    using map_occurrence_seen[of seen apps occ cs] Cons.prems by (simp add: st)
  have k: "app_key ` set (fst ?st') = snd st \<union> {chunk_key c | c. c \<in> set cs \<and> overlapping occ c}"
    using map_occurrence_keys[of seen apps occ cs] Cons.prems by (simp add: st)
  have "app_key ` set (fst (map_occurrences (occ # occs) cs st))
      = snd ?st' \<union> {chunk_key c | c o'. c \<in> set cs \<and> o' \<in> set occs \<and> overlapping o' c}"
    using Cons.IH[OF a] by simp
  also have "snd ?st' = snd st \<union> {chunk_key c | c. c \<in> set cs \<and> overlapping occ c}"
    using a k by simp
  also have "(snd st \<union> {chunk_key c | c. c \<in> set cs \<and> overlapping occ c})
        \<union> {chunk_key c | c o'. c \<in> set cs \<and> o' \<in> set occs \<and> overlapping o' c}
      = snd st \<union> {chunk_key c | c o'. c \<in> set cs \<and> o' \<in> set (occ # occs) \<and> overlapping o' c}"
    by auto
  finally show ?case .
qed

lemma map_occurrences_elems:
  "set (fst (map_occurrences occs cs st))
     \<subseteq> set (fst st) \<union> {make_appearance occ c | occ c. occ \<in> set occs \<and> c \<in> set cs \<and> overlapping occ c}"
proof (induction occs arbitrary: st)
  case Nil
  then show ?case by simp
next
  case (Cons occ occs)
  obtain apps seen where st: "st = (apps, seen)" by (cases st)
  let ?st' = "map_occurrence occ cs st"
  have e: "set (fst ?st') \<subseteq> set (fst st) \<union> {make_appearance occ c | c. c \<in> set cs \<and> overlapping occ c}"
    using map_occurrence_elems[of occ cs apps seen] by (simp add: st)
  have "set (fst (map_occurrences (occ # occs) cs st))
      \<subseteq> set (fst ?st') \<union> {make_appearance o' c | o' c. o' \<in> set occs \<and> c \<in> set cs \<and> overlapping o' c}"
    using Cons.IH[of ?st'] by simp
  also have "\<dots> \<subseteq> (set (fst st) \<union> {make_appearance occ c | c. c \<in> set cs \<and> overlapping occ c})
       \<union> {make_appearance o' c | o' c. o' \<in> set occs \<and> c \<in> set cs \<and> overlapping o' c}"
    using e by blast
  also have "\<dots> \<subseteq> set (fst st) \<union> {make_appearance o' c | o' c. o' \<in> set (occ # occs) \<and> c \<in> set cs \<and> overlapping o' c}"
    by auto
  finally show ?case .
qed

lemma overlapping_iff:
  "overlapping occ c \<longleftrightarrow>
     10 \<le> max 0 (min (occ_end occ) (char_end c) - max (occ_start occ) (char_start c))"
  by (simp add: overlapping_def calculate_overlap_def overlap_threshold_def)

lemma chunk_appearances_map_entity:
  "chunk_appearances (map_entity cs e) = fst (map_occurrences (entity_occurrences e) cs ([], {}))"
  by (simp add: map_entity_def Let_def)

lemma map_entity_keys:
  "app_key ` set (chunk_appearances (map_entity cs e))
     = {chunk_key c | c occ. c \<in> set cs \<and> occ \<in> set (entity_occurrences e) \<and> overlapping occ c}"
  using map_occurrences_keys[of "([], {})" "entity_occurrences e" cs]
  by (simp add: chunk_appearances_map_entity)

lemma map_entity_distinct:
  "distinct (map app_key (chunk_appearances (map_entity cs e)))"
  using map_occurrences_distinct[of "([], {})" "entity_occurrences e" cs]
  by (simp add: chunk_appearances_map_entity)

lemma map_entity_elems:
  "a \<in> set (chunk_appearances (map_entity cs e)) \<Longrightarrow>
   \<exists>occ c. a = make_appearance occ c \<and> occ \<in> set (entity_occurrences e) \<and> c \<in> set cs \<and> overlapping occ c"
  using map_occurrences_elems[of "entity_occurrences e" cs "([], {})"]
  by (auto simp add: chunk_appearances_map_entity)

text \<open>
  Claim C3. The overlap of an occurrence and a chunk range is
  \<open>max(0, min(end, chunk.char_end) - max(start, chunk.char_start))\<close>. For every entity
  and every non-empty chunk list, the keys \<open>(vector_rowid, chunk_index)\<close> of the
  appearances the mapper records are exactly the keys of the chunks that some occurrence
  of the entity overlaps by at least 10 characters, each key once. An overlap of exactly
  9 characters records nothing, an overlap of exactly 10 records the appearance.
\<close>

theorem C3_appearance_iff_overlap_at_least_10:
  "calculate_overlap s e s' e' = max 0 (min e e' - max s s')
   \<and> (chunks \<noteq> [] \<and> i < length entities \<longrightarrow>
        app_key ` set (chunk_appearances (map_entities_to_chunks entities chunks ! i))
          = {(vector_rowid c, chunk_index c) | c occ.
               c \<in> set chunks \<and> occ \<in> set (entity_occurrences (entities ! i)) \<and>
               10 \<le> max 0 (min (occ_end occ) (char_end c) - max (occ_start occ) (char_start c))}
        \<and> distinct (map app_key (chunk_appearances (map_entities_to_chunks entities chunks ! i))))
   \<and> (calculate_overlap (occ_start occ1) (occ_end occ1) (char_start c1) (char_end c1) = 9 \<longrightarrow>
        fst (map_occurrences [occ1] [c1] ([], {})) = [])
   \<and> (calculate_overlap (occ_start occ1) (occ_end occ1) (char_start c1) (char_end c1) = 10 \<longrightarrow>
        fst (map_occurrences [occ1] [c1] ([], {})) = [make_appearance occ1 c1])"
proof -
  have a: "calculate_overlap s e s' e' = max 0 (min e e' - max s s')"
    by (simp add: calculate_overlap_def)
  have b: "app_key ` set (chunk_appearances (map_entities_to_chunks entities chunks ! i))
          = {(vector_rowid c, chunk_index c) | c occ.
               c \<in> set chunks \<and> occ \<in> set (entity_occurrences (entities ! i)) \<and>
               10 \<le> max 0 (min (occ_end occ) (char_end c) - max (occ_start occ) (char_start c))}"
    if "chunks \<noteq> []" "i < length entities"
    using that map_entity_keys[of chunks "entities ! i"]
    by (simp add: map_entities_to_chunks_def overlapping_iff chunk_key_def)
  have c: "distinct (map app_key (chunk_appearances (map_entities_to_chunks entities chunks ! i)))"
    if "chunks \<noteq> []" "i < length entities"
    using that map_entity_distinct[of chunks "entities ! i"]
    by (simp add: map_entities_to_chunks_def)
  have d: "fst (map_occurrences [occ1] [c1] ([], {})) = []"
    if "calculate_overlap (occ_start occ1) (occ_end occ1) (char_start c1) (char_end c1) = 9"
    using that by (simp add: overlap_threshold_def)
  have e: "fst (map_occurrences [occ1] [c1] ([], {})) = [make_appearance occ1 c1]"
    if "calculate_overlap (occ_start occ1) (occ_end occ1) (char_start c1) (char_end c1) = 10"
    using that by (simp add: overlap_threshold_def)
  from a b c d e show ?thesis by blast
qed

text \<open>The mapper at an occurrence overlapping the chunk \<open>[10, 100)\<close> by 9 and by 10
  characters.\<close>

theorem C3_witness:
  "chunk_appearances (map_entities_to_chunks [example_entity 0 19] [example_chunk] ! 0) = []
   \<and> app_key ` set (chunk_appearances (map_entities_to_chunks [example_entity 0 20] [example_chunk] ! 0))
       = {(45001, 0)}"
proof -
  have 1: "app_key ` set (chunk_appearances (map_entities_to_chunks [example_entity 0 19] [example_chunk] ! 0)) = {}"
    using C3_appearance_iff_overlap_at_least_10[of 0 0 0 0 "[example_chunk]" 0 "[example_entity 0 19]"]
    by (simp add: example_entity_def example_chunk_def entity_occurrences_def)
  have 2: "app_key ` set (chunk_appearances (map_entities_to_chunks [example_entity 0 20] [example_chunk] ! 0)) = {(45001, 0)}"
    using C3_appearance_iff_overlap_at_least_10[of 0 0 0 0 "[example_chunk]" 0 "[example_entity 0 20]"]
    by (simp add: example_entity_def example_chunk_def entity_occurrences_def)
  from 1 have "chunk_appearances (map_entities_to_chunks [example_entity 0 19] [example_chunk] ! 0) = []"
    by simp
  with 2 show ?thesis by simp
qed

lemma find_merge_by_hit:
  "find P xs = Some x \<Longrightarrow> P (f x) \<Longrightarrow> find P (merge_by P f c xs) = Some (f x)"
  by (induction xs) (auto split: if_splits)

lemma en_normalized_entity_on_match: "en_normalized (entity_on_match conf n) = en_normalized n"
  by (simp add: entity_on_match_def Let_def)

lemma is_edge_relationship_on_match: "is_edge a l b (relationship_on_match conf r) = is_edge a l b r"
  by (simp add: relationship_on_match_def is_edge_def Let_def)

lemma find_Some_holds: "find P xs = Some x \<Longrightarrow> P x"
  by (induction xs) (auto split: if_splits)

text \<open>
  Claim C2. When an entity with the same \<open>normalized\<close> key is already stored with
  average \<open>a\<close> and \<open>mention_count = n\<close>, \<open>create_entity\<close> with confidence
  \<open>c\<close> leaves it with average \<open>(a * n + c) / (n + 1)\<close> and count \<open>n + 1\<close>. When an
  edge for the same (subject, predicate, object) triple is already stored with
  confidence \<open>a\<close> and \<open>occurrence_count = n\<close>, \<open>create_relationship\<close> with
  confidence \<open>c\<close> leaves it with confidence \<open>(a * n + c) / (n + 1)\<close> and count
  \<open>n + 1\<close>.
\<close>

theorem C2_running_average:
  "(find (\<lambda>n. en_normalized n = nrm) (entity_nodes g) = Some old \<longrightarrow>
      map_option (\<lambda>n. (avg_confidence n, mention_count n))
        (find (\<lambda>n. en_normalized n = nrm)
           (entity_nodes (fst (create_entity g etext nrm tp sa sb sc tf conf))))
      = Some ((avg_confidence old * real_of_int (mention_count old) + conf)
                 / real_of_int (mention_count old + 1),
              mention_count old + 1))
   \<and> (has_node g (EntityNode s) \<and> has_node g (EntityNode ob)
        \<and> find (is_edge (EntityNode s) (rel_type_of str_upper predicate) (EntityNode ob)) (edges g) = Some r
        \<and> e_confidence r = Some c \<and> occurrence_count r = Some n \<longrightarrow>
      map_option (\<lambda>e. (e_confidence e, occurrence_count e))
        (find (is_edge (EntityNode s) (rel_type_of str_upper predicate) (EntityNode ob))
           (edges (create_relationship str_upper g s predicate ob conf ctx)))
      = Some (Some ((c * real_of_int n + conf) / real_of_int (n + 1)), Some (n + 1)))"
proof (intro conjI impI)
  assume f: "find (\<lambda>n. en_normalized n = nrm) (entity_nodes g) = Some old"
  have k: "en_normalized (entity_on_match conf old) = nrm"
    using find_Some_holds[OF f] by (simp add: en_normalized_entity_on_match)
  have "find (\<lambda>n. en_normalized n = nrm)
          (entity_nodes (fst (create_entity g etext nrm tp sa sb sc tf conf)))
        = Some (entity_on_match conf old)"
    using find_merge_by_hit[OF f, of "entity_on_match conf"] k
    by (simp add: create_entity_def)
  then show "map_option (\<lambda>n. (avg_confidence n, mention_count n))
        (find (\<lambda>n. en_normalized n = nrm)
           (entity_nodes (fst (create_entity g etext nrm tp sa sb sc tf conf))))
      = Some ((avg_confidence old * real_of_int (mention_count old) + conf)
                 / real_of_int (mention_count old + 1),
              mention_count old + 1)"
    by (simp add: entity_on_match_def Let_def)
next
  assume a: "has_node g (EntityNode s) \<and> has_node g (EntityNode ob)
        \<and> find (is_edge (EntityNode s) (rel_type_of str_upper predicate) (EntityNode ob)) (edges g) = Some r
        \<and> e_confidence r = Some c \<and> occurrence_count r = Some n"
  then have f: "find (is_edge (EntityNode s) (rel_type_of str_upper predicate) (EntityNode ob)) (edges g) = Some r"
    by blast
  have k: "is_edge (EntityNode s) (rel_type_of str_upper predicate) (EntityNode ob) (relationship_on_match conf r)"
    using find_Some_holds[OF f] by (simp add: is_edge_relationship_on_match)
  have "find (is_edge (EntityNode s) (rel_type_of str_upper predicate) (EntityNode ob))
           (edges (create_relationship str_upper g s predicate ob conf ctx))
        = Some (relationship_on_match conf r)"
    using find_merge_by_hit[OF f, of "relationship_on_match conf"] k a
    by (simp add: create_relationship_def Let_def)
  then show "map_option (\<lambda>e. (e_confidence e, occurrence_count e))
        (find (is_edge (EntityNode s) (rel_type_of str_upper predicate) (EntityNode ob))
           (edges (create_relationship str_upper g s predicate ob conf ctx)))
      = Some (Some ((c * real_of_int n + conf) / real_of_int (n + 1)), Some (n + 1))"
    using a by (simp add: relationship_on_match_def Let_def)
qed

lemma rel_type_example: "rel_type_of ascii_upper ''integrates with'' = ''INTEGRATES_WITH''"
  by code_simp

lemma example_graph_entities:
  "entity_nodes example_graph =
     [\<lparr> en_normalized = ''neo4j'', en_text = ''Neo4j'', en_type_primary = ''Database'',
        en_type_sub1 = None, en_type_sub2 = None, en_type_sub3 = None, en_type_full = ''Database'',
        mention_count = 1, avg_confidence = 0.8 \<rparr>,
      \<lparr> en_normalized = ''python'', en_text = ''Python'', en_type_primary = ''Language'',
        en_type_sub1 = None, en_type_sub2 = None, en_type_sub3 = None, en_type_full = ''Language'',
        mention_count = 1, avg_confidence = 0.9 \<rparr>]"
  by (simp add: example_graph_def create_entity_def create_relationship_def empty_graph_def Let_def has_node_def)

lemma example_graph_edges:
  "edges example_graph =
     [(bare_edge (EntityNode ''python'') ''INTEGRATES_WITH'' (EntityNode ''neo4j''))
        \<lparr> e_confidence := Some 0.5, e_context := Some ''Python integrates with Neo4j'',
          occurrence_count := Some 1 \<rparr>]"
  by (simp add: example_graph_def create_entity_def create_relationship_def empty_graph_def Let_def has_node_def rel_type_example)

text \<open>A second merge of the entity \<open>neo4j\<close> (0.8, then 0.6) and of the relationship
  \<open>python INTEGRATES_WITH neo4j\<close> (0.5, then 0.6).\<close>

theorem C2_witness:
  "map_option (\<lambda>n. (avg_confidence n, mention_count n))
     (find (\<lambda>n. en_normalized n = ''neo4j'')
        (entity_nodes (fst (create_entity example_graph ''Neo4j'' ''neo4j'' ''Database'' None None None ''Database'' 0.6))))
     = Some (0.7, 2)
   \<and> map_option (\<lambda>e. (e_confidence e, occurrence_count e))
        (find (is_edge (EntityNode ''python'') ''INTEGRATES_WITH'' (EntityNode ''neo4j''))
           (edges (create_relationship ascii_upper example_graph ''python'' ''integrates with'' ''neo4j'' 0.6 ''ctx'')))
     = Some (Some 0.55, Some 2)"
  using C2_running_average[where str_upper = ascii_upper and nrm = "''neo4j''" and g = example_graph
      and old = "\<lparr> en_normalized = ''neo4j'', en_text = ''Neo4j'', en_type_primary = ''Database'',
        en_type_sub1 = None, en_type_sub2 = None, en_type_sub3 = None, en_type_full = ''Database'',
        mention_count = 1, avg_confidence = 0.8 \<rparr>"
      and etext = "''Neo4j''" and tp = "''Database''" and sa = None and sb = None and sc = None
      and tf = "''Database''" and conf = "0.6"
      and s = "''python''" and ob = "''neo4j''" and predicate = "''integrates with''"
      and r = "(bare_edge (EntityNode ''python'') ''INTEGRATES_WITH'' (EntityNode ''neo4j''))
        \<lparr> e_confidence := Some 0.5, e_context := Some ''Python integrates with Neo4j'',
          occurrence_count := Some 1 \<rparr>" and c = "0.5" and n = 1 and ctx = "''ctx''"]
  by (simp add: example_graph_entities example_graph_edges rel_type_example has_node_def is_edge_def bare_edge_def)

lemma fallback_appearance_bounds:
  assumes v: "chunk_metadata_valid c"
    and ov: "overlapping \<lparr> occ_start = 0, occ_end = int n \<rparr> c"
  shows "offset_start (make_appearance \<lparr> occ_start = 0, occ_end = int n \<rparr> c) = 0"
    and "10 \<le> offset_end (make_appearance \<lparr> occ_start = 0, occ_end = int n \<rparr> c)"
    and "offset_end (make_appearance \<lparr> occ_start = 0, occ_end = int n \<rparr> c) \<le> int (length (chunk_text c))"
proof -
  from v have cs: "0 \<le> char_start c" and len: "10 \<le> int (length (chunk_text c))"
    by (simp_all add: chunk_metadata_valid_def)
  from ov cs have "10 \<le> min (int n) (char_end c) - char_start c"
    by (simp add: overlapping_iff max_def split: if_splits)
  then have n: "10 \<le> int n - char_start c" by linarith
  show "offset_start (make_appearance \<lparr> occ_start = 0, occ_end = int n \<rparr> c) = 0"
    using cs by (simp add: make_appearance_def)
  show "10 \<le> offset_end (make_appearance \<lparr> occ_start = 0, occ_end = int n \<rparr> c)"
    using n len by (simp add: make_appearance_def)
  show "offset_end (make_appearance \<lparr> occ_start = 0, occ_end = int n \<rparr> c) \<le> int (length (chunk_text c))"
    by (simp add: make_appearance_def)
qed

lemma extractor_entity_occurrences:
  "extractor_entity e \<Longrightarrow>
   entity_occurrences e = [\<lparr> occ_start = 0, occ_end = int (length (ent_text e)) \<rparr>]"
  by (simp add: extractor_entity_def entity_occurrences_def)

text \<open>
  Claim C4. For every chunk list that passes the request validation and every entity list
  as the extractors produce it, every appearance the mapper records has
  \<open>0 \<le> offset_start < offset_end \<le> len(chunk.text)\<close>, where the chunk is the one
  the appearance names.
\<close>

theorem C4_appearance_offsets_within_chunk:
  assumes chunks: "\<forall>c \<in> set chunks. chunk_metadata_valid c"
    and ents: "\<forall>e \<in> set entities. extractor_entity e"
  shows "\<forall>e' \<in> set (map_entities_to_chunks entities chunks).
           \<forall>a \<in> set (chunk_appearances e').
             0 \<le> offset_start a \<and> offset_start a < offset_end a
             \<and> (\<exists>c \<in> set chunks. chunk_key c = app_key a
                    \<and> offset_end a \<le> int (length (chunk_text c)))"
proof (intro ballI)
  fix e' a
  assume e': "e' \<in> set (map_entities_to_chunks entities chunks)"
    and a: "a \<in> set (chunk_appearances e')"
  show "0 \<le> offset_start a \<and> offset_start a < offset_end a
        \<and> (\<exists>c \<in> set chunks. chunk_key c = app_key a \<and> offset_end a \<le> int (length (chunk_text c)))"
  proof (cases "chunks = []")
    case True
    with e' have "e' \<in> set entities" by (simp add: map_entities_to_chunks_def)
    with ents have "chunk_appearances e' = []" by (simp add: extractor_entity_def)
    with a show ?thesis by simp
  next
    case False
    with e' obtain e where e: "e \<in> set entities" and e'_def: "e' = map_entity chunks e"
      by (auto simp add: map_entities_to_chunks_def)
    from ents e have occs: "entity_occurrences e = [\<lparr> occ_start = 0, occ_end = int (length (ent_text e)) \<rparr>]"
      by (simp add: extractor_entity_occurrences)
    from map_entity_elems[of a chunks e] a e'_def occs
    obtain c where ac: "a = make_appearance \<lparr> occ_start = 0, occ_end = int (length (ent_text e)) \<rparr> c"
      and c: "c \<in> set chunks"
      and ov: "overlapping \<lparr> occ_start = 0, occ_end = int (length (ent_text e)) \<rparr> c"
      by auto
    from chunks c have v: "chunk_metadata_valid c" by blast
    note b = fallback_appearance_bounds[OF v ov]
    have k: "chunk_key c = app_key a" by (simp add: ac app_key_make_appearance)
    from b c k show ?thesis unfolding ac by force
  qed
qed


text \<open>One validated chunk and one extracted entity: the appearance is \<open>[0, 26)\<close> in a
  chunk text of 38 characters.\<close>

theorem C4_witness:
  "chunk_metadata_valid example_ingest_chunk \<and> extractor_entity example_extracted_entity
   \<and> chunk_appearances (hd (map_entities_to_chunks [example_extracted_entity] [example_ingest_chunk]))
       = [\<lparr> app_vector_rowid = 45001, app_chunk_index = 0, offset_start = 0, offset_end = 26 \<rparr>]
   \<and> length (chunk_text example_ingest_chunk) = 38"
  using C4_appearance_offsets_within_chunk[of "[example_ingest_chunk]" "[example_extracted_entity]"]
  by (simp add: chunk_metadata_valid_def extractor_entity_def example_ingest_chunk_def
      example_extracted_entity_def map_entities_to_chunks_def map_entity_def entity_occurrences_def
      calculate_overlap_def overlap_threshold_def make_appearance_def chunk_key_def)

lemma first_by_rowid_first:
  "c \<in> set (first_by_rowid seen cs) \<Longrightarrow>
   \<exists>r. rc_vector_rowid c = Some r \<and> r \<notin> seen \<and> first_with_rowid r cs = Some c"
proof (induction cs arbitrary: seen)
  case Nil
  then show ?case by simp
next
  case (Cons x xs)
  show ?case
  proof (cases "rc_vector_rowid x")
    case None
    with Cons.prems have "c \<in> set (first_by_rowid seen xs)" by simp
    from Cons.IH[OF this] None show ?thesis
      by (auto simp add: first_with_rowid_def)
  next
    case (Some r)
    show ?thesis
    proof (cases "r \<in> seen")
      case True
      with Some Cons.prems have "c \<in> set (first_by_rowid seen xs)" by simp
      from Cons.IH[OF this] Some True show ?thesis
        by (auto simp add: first_with_rowid_def)
    next
      case False
      with Some Cons.prems have "c = x \<or> c \<in> set (first_by_rowid (insert r seen) xs)" by simp
      then show ?thesis
      proof
        assume "c = x"
        with Some False show ?thesis by (simp add: first_with_rowid_def)
      next
        assume "c \<in> set (first_by_rowid (insert r seen) xs)"
        from Cons.IH[OF this] Some show ?thesis
          by (auto simp add: first_with_rowid_def)
      qed
    qed
  qed
qed

lemma rowids_of_Cons:
  "rowids_of (x # xs) = (case rc_vector_rowid x of None \<Rightarrow> {} | Some r \<Rightarrow> {r}) \<union> rowids_of xs"
  by (auto simp add: rowids_of_def split: option.splits)

lemma rowids_of_Nil: "rowids_of [] = {}"
  by (simp add: rowids_of_def)

lemma rowids_of_append: "rowids_of (xs @ ys) = rowids_of xs \<union> rowids_of ys"
  by (auto simp add: rowids_of_def)

lemma first_by_rowid_rowids:
  "rowids_of (first_by_rowid seen cs) = rowids_of cs - seen"
proof (induction cs arbitrary: seen)
  case Nil
  then show ?case by (simp add: rowids_of_Nil)
next
  case (Cons x xs)
  show ?case
  proof (cases "rc_vector_rowid x")
    case None
    then show ?thesis using Cons.IH[of seen] by (simp add: rowids_of_Cons)
  next
    case (Some r)
    then show ?thesis using Cons.IH[of seen] Cons.IH[of "insert r seen"]
      by (auto simp add: rowids_of_Cons)
  qed
qed

lemma first_by_rowid_distinct:
  "distinct (map rc_vector_rowid (first_by_rowid seen cs))"
proof (induction cs arbitrary: seen)
  case Nil
  then show ?case by simp
next
  case (Cons x xs)
  show ?case
  proof (cases "rc_vector_rowid x")
    case None
    then show ?thesis using Cons.IH[of seen] by simp
  next
    case (Some r)
    have "Some r \<notin> set (map rc_vector_rowid (first_by_rowid (insert r seen) xs))"
      using first_by_rowid_rowids[of "insert r seen" xs] by (auto simp add: rowids_of_def)
    then show ?thesis using Some Cons.IH[of seen] Cons.IH[of "insert r seen"]
      by simp
  qed
qed

lemma score_loop_ok:
  "\<forall>c \<in> set cs. \<forall>r. rc_vector_rowid c = Some r \<longrightarrow> entry r c = Inr (mk c) \<Longrightarrow>
   score_loop entry cs (scored, dedup)
     = Inr (scored @ map mk (first_by_rowid dedup cs), dedup \<union> rowids_of cs)"
proof (induction cs arbitrary: scored dedup)
  case Nil
  then show ?case by (simp add: rowids_of_Nil)
next
  case (Cons x xs)
  have rest: "\<forall>c \<in> set xs. \<forall>r. rc_vector_rowid c = Some r \<longrightarrow> entry r c = Inr (mk c)"
    using Cons.prems by simp
  show ?case
  proof (cases "rc_vector_rowid x")
    case None
    then show ?thesis using Cons.IH[OF rest, of scored dedup] by (simp add: rowids_of_Cons)
  next
    case (Some r)
    have e: "entry r x = Inr (mk x)" using Cons.prems Some by simp
    show ?thesis
    proof (cases "r \<in> dedup")
      case True
      then show ?thesis using Some Cons.IH[OF rest, of scored dedup]
        by (auto simp add: rowids_of_Cons)
    next
      case False
      then show ?thesis using Some e Cons.IH[OF rest, of "scored @ [mk x]" "insert r dedup"]
        by (simp add: rowids_of_Cons)
    qed
  qed
qed


lemma first_with_rowid_None: "r \<notin> rowids_of cs \<Longrightarrow> first_with_rowid r cs = None"
  by (force simp add: first_with_rowid_def rowids_of_def find_None_iff image_iff)

lemma search_entry_Inr:
  "rc_text c = Some t \<Longrightarrow> rc_vector_rowid c = Some r \<Longrightarrow> search_entry r c = Inr (search_scored c)"
  by (simp add: search_scored_def search_entry_def Let_def)

lemma expanded_entry_Inr:
  "rc_text c = Some t \<Longrightarrow> rc_vector_rowid c = Some r \<Longrightarrow> expanded_entry r c = Inr (expanded_scored c)"
  by (simp add: expanded_scored_def expanded_entry_def Let_def)

lemma search_scored_fields:
  assumes "rc_text c = Some t" "rc_vector_rowid c = Some r"
  shows "sc_vector_rowid (search_scored c) = r"
    and "search_entity_count (search_scored c) = length (rc_search_entities c)"
    and "expanded_entity_count (search_scored c) = 0"
    and "expansion_score (search_scored c) =
           (if length (rc_search_entities c) \<ge> 2 then 1
            else if length (rc_search_entities c) = 1 then 0.6 else 0.4)"
    and "sc_chunk_text (search_scored c) = take 500 t"
  using assms by (simp_all add: search_scored_def search_entry_def Let_def)

lemma expanded_scored_fields:
  assumes "rc_text c = Some t" "rc_vector_rowid c = Some r"
  shows "sc_vector_rowid (expanded_scored c) = r"
    and "search_entity_count (expanded_scored c) = 0"
    and "expanded_entity_count (expanded_scored c) = length (rc_expanded_entities c)"
    and "expansion_score (expanded_scored c) =
           (if length (rc_expanded_entities c) > 3 then 0.8
            else if 2 \<le> length (rc_expanded_entities c) \<and> length (rc_expanded_entities c) \<le> 3
            then 0.6 else 0.4)"
    and "sc_chunk_text (expanded_scored c) = take 500 t"
  using assms by (simp_all add: expanded_scored_def expanded_entry_def Let_def)

lemma rowids_image:
  assumes "\<And>c. c \<in> set cs \<Longrightarrow> \<exists>r. rc_vector_rowid c = Some r \<and> f c = r"
  shows "map (\<lambda>c. Some (f c)) cs = map rc_vector_rowid cs"
  using assms by (induction cs) auto

lemma distinct_map_Some: "distinct (map (\<lambda>c. Some (f c)) cs) = distinct (map f cs)"
  by (induction cs) auto

lemma set_map_Some_rowids:
  "map (\<lambda>c. Some (f c)) cs = map rc_vector_rowid cs \<Longrightarrow> set (map f cs) = rowids_of cs"
proof -
  assume a: "map (\<lambda>c. Some (f c)) cs = map rc_vector_rowid cs"
  have "rowids_of cs = {r. Some r \<in> set (map (\<lambda>c. Some (f c)) cs)}"
    by (simp only: rowids_of_def a)
  also have "\<dots> = set (map f cs)" by auto
  finally show ?thesis by simp
qed


lemma first_by_rowid_subset: "c \<in> set (first_by_rowid seen cs) \<Longrightarrow> c \<in> set cs"
proof -
  assume "c \<in> set (first_by_rowid seen cs)"
  from first_by_rowid_first[OF this] obtain r where "first_with_rowid r cs = Some c" by blast
  then show ?thesis by (auto simp add: first_with_rowid_def find_Some_iff)
qed

lemma sorted_desc_sort_by_score:
  "sorted_wrt (\<lambda>a b. a \<ge> b) (map expansion_score (sort_by_score_desc xs))"
proof -
  have "sorted (map (\<lambda>c. - expansion_score c) (sort_by_score_desc xs))"
    by (simp add: sort_by_score_desc_def)
  then have "sorted_wrt (\<lambda>x y. - expansion_score x \<le> - expansion_score y) (sort_by_score_desc xs)"
    by (simp only: sorted_wrt_map)
  then have "sorted_wrt (\<lambda>x y. expansion_score x \<ge> expansion_score y) (sort_by_score_desc xs)"
    by simp
  then show ?thesis by (simp only: sorted_wrt_map)
qed

lemma distinct_map_sort_by_score:
  "distinct (map f (sort_by_score_desc xs)) = distinct (map f xs)"
proof -
  have "mset (map f (sort_by_score_desc xs)) = mset (map f xs)"
    by (simp add: sort_by_score_desc_def)
  then show ?thesis by (rule mset_eq_imp_distinct_iff)
qed

lemma set_sort_by_score: "set (sort_by_score_desc xs) = set xs"
  by (simp add: sort_by_score_desc_def)

lemma py_prefix_nonneg:
  "0 \<le> n \<Longrightarrow> py_prefix n xs = take (nat n) xs"
  by (simp add: py_prefix_def)

text \<open>
  The scorer on a query result in which every chunk that carries a row id also carries a
  text. It returns a list with one entry per row id (search-term chunks are taken before
  expansion chunks, the first chunk of a row id wins). A search-term chunk scores 1.0
  with two or more resolved entities, 0.6 with exactly one and 0.4 with none; an
  expansion-only chunk scores 0.8 with more than three co-occurring entities, 0.6 with
  two or three and 0.4 otherwise. The list is sorted by descending score and each text is
  cut to 500 characters.
\<close>

lemma score_and_rank_chunks_tiers:
  assumes texts: "\<forall>c \<in> set (search_chunks qr @ expanded_chunks qr).
                    rc_vector_rowid c \<noteq> None \<longrightarrow> rc_text c \<noteq> None"
  shows "\<exists>ranked. score_and_rank_chunks qr = Inr ranked
     \<and> distinct (map sc_vector_rowid ranked)
     \<and> set (map sc_vector_rowid ranked) = rowids_of (search_chunks qr) \<union> rowids_of (expanded_chunks qr)
     \<and> (\<forall>s \<in> set ranked.
          length (sc_chunk_text s) \<le> 500 \<and>
          (case first_with_rowid (sc_vector_rowid s) (search_chunks qr) of
             Some c \<Rightarrow>
               search_entity_count s = length (rc_search_entities c) \<and> expanded_entity_count s = 0
               \<and> expansion_score s =
                    (if length (rc_search_entities c) \<ge> 2 then 1
                     else if length (rc_search_entities c) = 1 then 0.6 else 0.4)
               \<and> Some (sc_chunk_text s) = map_option (take 500) (rc_text c)
           | None \<Rightarrow>
               (case first_with_rowid (sc_vector_rowid s) (expanded_chunks qr) of
                  Some c \<Rightarrow>
                    search_entity_count s = 0
                    \<and> expanded_entity_count s = length (rc_expanded_entities c)
                    \<and> expansion_score s =
                         (if length (rc_expanded_entities c) > 3 then 0.8
                          else if 2 \<le> length (rc_expanded_entities c)
                                  \<and> length (rc_expanded_entities c) \<le> 3 then 0.6
                          else 0.4)
                    \<and> Some (sc_chunk_text s) = map_option (take 500) (rc_text c)
                | None \<Rightarrow> False)))
     \<and> sorted_wrt (\<lambda>a b. a \<ge> b) (map expansion_score ranked)
     \<and> (0 \<le> max_chunks \<longrightarrow>
           py_prefix max_chunks ranked = take (nat max_chunks) ranked
           \<and> int (length (py_prefix max_chunks ranked)) \<le> max_chunks)"
proof -
  let ?S = "search_chunks qr" and ?E = "expanded_chunks qr"
  let ?S' = "first_by_rowid {} ?S"
  let ?E' = "first_by_rowid (rowids_of ?S) ?E"
  let ?U = "map search_scored ?S' @ map expanded_scored ?E'"
  let ?ranked = "sort_by_score_desc ?U"
  have tS: "\<exists>t. rc_text c = Some t" if "c \<in> set ?S" "rc_vector_rowid c = Some r" for c r
    using texts that by auto
  have tE: "\<exists>t. rc_text c = Some t" if "c \<in> set ?E" "rc_vector_rowid c = Some r" for c r
    using texts that by auto
  have eS: "\<forall>c \<in> set ?S. \<forall>r. rc_vector_rowid c = Some r \<longrightarrow> search_entry r c = Inr (search_scored c)"
    using tS search_entry_Inr by blast
  have eE: "\<forall>c \<in> set ?E. \<forall>r. rc_vector_rowid c = Some r \<longrightarrow> expanded_entry r c = Inr (expanded_scored c)"
    using tE expanded_entry_Inr by blast
  have l1: "score_loop search_entry ?S ([], {}) = Inr (map search_scored ?S', rowids_of ?S)"
    using score_loop_ok[OF eS, of "[]" "{}"] by simp
  have l2: "score_loop expanded_entry ?E (map search_scored ?S', rowids_of ?S)
              = Inr (?U, rowids_of ?S \<union> rowids_of ?E)"
    using score_loop_ok[OF eE, of "map search_scored ?S'" "rowids_of ?S"] by simp
  have run: "score_and_rank_chunks qr = Inr ?ranked"
    by (simp add: score_and_rank_chunks_def l1 l2)
  \<comment> \<open>the entries of the search loop\<close>
  have inS: "\<exists>r t. rc_vector_rowid c = Some r \<and> rc_text c = Some t \<and> first_with_rowid r ?S = Some c"
    if "c \<in> set ?S'" for c
  proof -
    from first_by_rowid_first[OF that] obtain r where r: "rc_vector_rowid c = Some r"
      "first_with_rowid r ?S = Some c" by blast
    from tS[OF first_by_rowid_subset[OF that] r(1)] r show ?thesis by blast
  qed
  have inE: "\<exists>r t. rc_vector_rowid c = Some r \<and> rc_text c = Some t \<and> r \<notin> rowids_of ?S
               \<and> first_with_rowid r ?E = Some c"
    if "c \<in> set ?E'" for c
  proof -
    from first_by_rowid_first[OF that] obtain r where r: "rc_vector_rowid c = Some r"
      "r \<notin> rowids_of ?S" "first_with_rowid r ?E = Some c" by blast
    from tE[OF first_by_rowid_subset[OF that] r(1)] r show ?thesis by blast
  qed
  \<comment> \<open>row ids\<close>
  have mS: "map (\<lambda>c. Some (sc_vector_rowid (search_scored c))) ?S' = map rc_vector_rowid ?S'"
  proof (rule rowids_image)
    fix c assume "c \<in> set ?S'"
    from inS[OF this] obtain r t where "rc_vector_rowid c = Some r" "rc_text c = Some t" by blast
    then show "\<exists>r. rc_vector_rowid c = Some r \<and> sc_vector_rowid (search_scored c) = r"
      using search_scored_fields(1) by blast
  qed
  have mE: "map (\<lambda>c. Some (sc_vector_rowid (expanded_scored c))) ?E' = map rc_vector_rowid ?E'"
  proof (rule rowids_image)
    fix c assume "c \<in> set ?E'"
    from inE[OF this] obtain r t where "rc_vector_rowid c = Some r" "rc_text c = Some t" by blast
    then show "\<exists>r. rc_vector_rowid c = Some r \<and> sc_vector_rowid (expanded_scored c) = r"
      using expanded_scored_fields(1) by blast
  qed
  have "distinct (map (\<lambda>c. Some (sc_vector_rowid (search_scored c))) ?S')"
    unfolding mS by (rule first_by_rowid_distinct)
  then have dS: "distinct (map (\<lambda>c. sc_vector_rowid (search_scored c)) ?S')"
    by (simp only: distinct_map_Some)
  have "distinct (map (\<lambda>c. Some (sc_vector_rowid (expanded_scored c))) ?E')"
    unfolding mE by (rule first_by_rowid_distinct)
  then have dE: "distinct (map (\<lambda>c. sc_vector_rowid (expanded_scored c)) ?E')"
    by (simp only: distinct_map_Some)
  have sS: "set (map (\<lambda>c. sc_vector_rowid (search_scored c)) ?S') = rowids_of ?S"
    using set_map_Some_rowids[OF mS] first_by_rowid_rowids[of "{}" ?S] by simp
  have sE: "set (map (\<lambda>c. sc_vector_rowid (expanded_scored c)) ?E') = rowids_of ?E - rowids_of ?S"
    using set_map_Some_rowids[OF mE] first_by_rowid_rowids[of "rowids_of ?S" ?E] by simp
  have mapU: "map sc_vector_rowid ?U
      = map (\<lambda>c. sc_vector_rowid (search_scored c)) ?S' @ map (\<lambda>c. sc_vector_rowid (expanded_scored c)) ?E'"
    by (simp add: comp_def)
  have dU: "distinct (map sc_vector_rowid ?U)"
    unfolding mapU using dS dE sS sE by (simp only: distinct_append) blast
  have sU: "set (map sc_vector_rowid ?U) = rowids_of ?S \<union> rowids_of ?E"
    unfolding mapU using sS sE by (simp only: set_append) blast
  have c1: "distinct (map sc_vector_rowid ?ranked)"
    using dU by (simp only: distinct_map_sort_by_score)
  have c2: "set (map sc_vector_rowid ?ranked) = rowids_of ?S \<union> rowids_of ?E"
    using sU by (simp only: set_map set_sort_by_score)
  \<comment> \<open>the tiers\<close>
  have c3: "length (sc_chunk_text s) \<le> 500 \<and>
          (case first_with_rowid (sc_vector_rowid s) ?S of
             Some c \<Rightarrow>
               search_entity_count s = length (rc_search_entities c) \<and> expanded_entity_count s = 0
               \<and> expansion_score s =
                    (if length (rc_search_entities c) \<ge> 2 then 1
                     else if length (rc_search_entities c) = 1 then 0.6 else 0.4)
               \<and> Some (sc_chunk_text s) = map_option (take 500) (rc_text c)
           | None \<Rightarrow>
               (case first_with_rowid (sc_vector_rowid s) ?E of
                  Some c \<Rightarrow>
                    search_entity_count s = 0
                    \<and> expanded_entity_count s = length (rc_expanded_entities c)
                    \<and> expansion_score s =
                         (if length (rc_expanded_entities c) > 3 then 0.8
                          else if 2 \<le> length (rc_expanded_entities c)
                                  \<and> length (rc_expanded_entities c) \<le> 3 then 0.6
                          else 0.4)
                    \<and> Some (sc_chunk_text s) = map_option (take 500) (rc_text c)
                | None \<Rightarrow> False))"
    if "s \<in> set ?ranked" for s
  proof -
    from that have "s \<in> set ?U" by (simp only: set_sort_by_score)
    then consider c where "c \<in> set ?S'" "s = search_scored c"
      | c where "c \<in> set ?E'" "s = expanded_scored c"
      by auto
    then show ?thesis
    proof cases
      case 1
      from inS[OF 1(1)] obtain r t where r: "rc_vector_rowid c = Some r" "rc_text c = Some t"
        "first_with_rowid r ?S = Some c" by blast
      note f = search_scored_fields[OF r(2) r(1)]
      show ?thesis unfolding 1(2) f(1) r(3) using f r(2) by simp
    next
      case 2
      from inE[OF 2(1)] obtain r t where r: "rc_vector_rowid c = Some r" "rc_text c = Some t"
        "r \<notin> rowids_of ?S" "first_with_rowid r ?E = Some c" by blast
      note f = expanded_scored_fields[OF r(2) r(1)]
      have n: "first_with_rowid r ?S = None" using r(3) by (rule first_with_rowid_None)
      show ?thesis unfolding 2(2) f(1) n r(4) using f r(2) by simp
    qed
  qed
  have c4: "sorted_wrt (\<lambda>a b. a \<ge> b) (map expansion_score ?ranked)"
    by (rule sorted_desc_sort_by_score)
  have c5: "0 \<le> max_chunks \<longrightarrow>
           py_prefix max_chunks ?ranked = take (nat max_chunks) ?ranked
           \<and> int (length (py_prefix max_chunks ?ranked)) \<le> max_chunks"
    by (auto simp add: py_prefix_nonneg)
  from run c1 c2 c3 c4 c5 show ?thesis by blast
qed


lemma example_scores:
  "map (\<lambda>s. (sc_vector_rowid s, expansion_score s, search_entity_count s, expanded_entity_count s))
       (projr (score_and_rank_chunks example_query_result))
     = [(1, 1, 2, 0), (3, 0.8, 0, 4), (2, 0.6, 1, 0)]"
  by (simp add: score_and_rank_chunks_def example_query_result_def example_result_chunk_def
      search_entry_def expanded_entry_def sort_by_score_desc_def Let_def)

text \<open>A query result with two search-term chunks (one and two resolved entities) and two
  expansion chunks, one of them a row id already scored.\<close>

lemma score_and_rank_chunks_example:
  "map (\<lambda>s. (sc_vector_rowid s, expansion_score s, search_entity_count s, expanded_entity_count s))
       (projr (score_and_rank_chunks example_query_result))
     = [(1, 1, 2, 0), (3, 0.8, 0, 4), (2, 0.6, 1, 0)]
   \<and> map sc_vector_rowid (py_prefix 2 (projr (score_and_rank_chunks example_query_result))) = [1, 3]
   \<and> rowids_of (search_chunks example_query_result) \<union> rowids_of (expanded_chunks example_query_result)
       = {1, 2, 3}"
proof -
  from score_and_rank_chunks_tiers[of example_query_result 2]
  obtain ranked where r: "score_and_rank_chunks example_query_result = Inr ranked"
    and ids: "set (map sc_vector_rowid ranked)
       = rowids_of (search_chunks example_query_result) \<union> rowids_of (expanded_chunks example_query_result)"
    and pre: "py_prefix 2 ranked = take (nat 2) ranked"
    by (auto simp add: example_query_result_def example_result_chunk_def)
  have m: "map (\<lambda>s. (sc_vector_rowid s, expansion_score s, search_entity_count s, expanded_entity_count s)) ranked
     = [(1, 1, 2, 0), (3, 0.8, 0, 4), (2, 0.6, 1, 0)]"
    using example_scores r by simp
  then have "map (fst \<circ> (\<lambda>s. (sc_vector_rowid s, expansion_score s, search_entity_count s, expanded_entity_count s))) ranked
     = [1, 3, 2]"
    by (simp only: map_map[symmetric] list.map fst_conv)
  then have v: "map sc_vector_rowid ranked = [1, 3, 2]" by (simp add: comp_def)
  have "map sc_vector_rowid (py_prefix 2 ranked) = [1, 3]"
    unfolding pre using v by (simp add: take_map[symmetric])
  moreover have "rowids_of (search_chunks example_query_result) \<union> rowids_of (expanded_chunks example_query_result) = {1, 2, 3}"
    using ids v by auto
  ultimately show ?thesis using m r by simp
qed













lemma find_char_first:
  "find_char c s = Some k \<Longrightarrow> k < length s \<and> s ! k = c \<and> (\<forall>j < k. s ! j \<noteq> c)"
proof (induction s arbitrary: k)
  case Nil
  then show ?case by simp
next
  case (Cons x xs)
  show ?case
  proof (cases "x = c")
    case True
    with Cons.prems show ?thesis by simp
  next
    case False
    with Cons.prems obtain k' where k': "find_char c xs = Some k'" "k = Suc k'" by auto
    from Cons.IH[OF k'(1)] False k'(2) show ?thesis
      by (auto simp add: nth_Cons split: nat.splits)
  qed
qed






















lemma merge_by_keys:
  assumes "\<And>x. key (f x) = key x" and "\<And>x. P x \<longleftrightarrow> key x = k" and "key c = k"
  shows "set (map key (merge_by P f c xs)) = insert k (set (map key xs))"
  using assms by (induction xs) auto

lemma merge_by_id_superset: "set xs \<subseteq> set (merge_by P (\<lambda>e. e) c xs)"
  by (induction xs) auto

lemma merge_by_id_has: "P c \<Longrightarrow> \<exists>x \<in> set (merge_by P (\<lambda>e. e) c xs). P x"
  by (induction xs) auto

lemma create_document_has:
  "has_node (fst (create_document g cid u t)) (DocumentNode cid)"
  "snd (create_document g cid u t) = DocumentNode cid"
proof -
  have "set (map content_id (merge_by (\<lambda>d. content_id d = cid) (\<lambda>d. d\<lparr>url := u, title := t\<rparr>)
            \<lparr>content_id = cid, url = u, title = t\<rparr> (documents g)))
        = insert cid (set (map content_id (documents g)))"
    by (rule merge_by_keys) simp_all
  then show "has_node (fst (create_document g cid u t)) (DocumentNode cid)"
    by (simp add: create_document_def has_node_def)
  show "snd (create_document g cid u t) = DocumentNode cid"
    by (simp add: create_document_def)
qed

lemma create_chunk_ok:
  assumes d: "has_node g (DocumentNode cid)"
  shows "\<exists>g'. create_chunk g (DocumentNode cid) rowid idx cs ce preview = Inr (g', ChunkNode rowid)
           \<and> documents g' = documents g
           \<and> set (map cn_vector_rowid (chunk_nodes g')) = insert rowid (set (map cn_vector_rowid (chunk_nodes g)))
           \<and> set (edges g) \<subseteq> set (edges g')
           \<and> (\<exists>e \<in> set (edges g'). is_edge (DocumentNode cid) ''HAS_CHUNK'' (ChunkNode rowid) e)"
proof -
  let ?cn = "merge_by (\<lambda>c. cn_vector_rowid c = rowid)
                   (\<lambda>c. c \<lparr> cn_chunk_index := idx, cn_char_start := cs, cn_char_end := ce,
                          text_preview := take 200 preview \<rparr>)
                   \<lparr> cn_vector_rowid = rowid, cn_chunk_index = idx, cn_char_start = cs,
                     cn_char_end = ce, text_preview = take 200 preview \<rparr>
                   (chunk_nodes g)"
  let ?ed = "merge_by (is_edge (DocumentNode cid) ''HAS_CHUNK'' (ChunkNode rowid)) (\<lambda>e. e)
                   (bare_edge (DocumentNode cid) ''HAS_CHUNK'' (ChunkNode rowid)) (edges g)"
  let ?g' = "g \<lparr> chunk_nodes := ?cn, edges := ?ed \<rparr>"
  have eq: "create_chunk g (DocumentNode cid) rowid idx cs ce preview = Inr (?g', ChunkNode rowid)"
    using d by (simp add: create_chunk_def)
  have k: "set (map cn_vector_rowid ?cn) = insert rowid (set (map cn_vector_rowid (chunk_nodes g)))"
    by (rule merge_by_keys) simp_all
  have s: "set (edges g) \<subseteq> set ?ed" by (rule merge_by_id_superset)
  have "is_edge (DocumentNode cid) ''HAS_CHUNK'' (ChunkNode rowid)
          (bare_edge (DocumentNode cid) ''HAS_CHUNK'' (ChunkNode rowid))"
    by (simp add: is_edge_def bare_edge_def)
  then have h: "\<exists>e \<in> set ?ed. is_edge (DocumentNode cid) ''HAS_CHUNK'' (ChunkNode rowid) e"
    by (rule merge_by_id_has)
  from eq k s h show ?thesis by simp
qed

lemma store_chunks_ok:
  assumes "has_node g (DocumentNode cid)"
  shows "\<exists>g' m'. store_chunks g (DocumentNode cid) chunks m = (g', Inr m')
           \<and> documents g' = documents g
           \<and> entity_nodes g' = entity_nodes g
           \<and> set (map cn_vector_rowid (chunk_nodes g))
                \<union> set (map vector_rowid chunks) = set (map cn_vector_rowid (chunk_nodes g'))
           \<and> set (edges g) \<subseteq> set (edges g')
           \<and> (\<forall>c \<in> set chunks. chunk_persisted g' cid c)"
  using assms
proof (induction chunks arbitrary: g m)
  case Nil
  then show ?case by simp
next
  case (Cons c cs)
  from create_chunk_ok[OF Cons.prems, of "vector_rowid c" "chunk_index c" "char_start c" "char_end c" "take 200 (chunk_text c)"]
  obtain g1 where g1: "create_chunk g (DocumentNode cid) (vector_rowid c) (chunk_index c) (char_start c)
        (char_end c) (take 200 (chunk_text c)) = Inr (g1, ChunkNode (vector_rowid c))"
    and docs: "documents g1 = documents g"
    and ids: "set (map cn_vector_rowid (chunk_nodes g1)) = insert (vector_rowid c) (set (map cn_vector_rowid (chunk_nodes g)))"
    and sub: "set (edges g) \<subseteq> set (edges g1)"
    and ed: "\<exists>e \<in> set (edges g1). is_edge (DocumentNode cid) ''HAS_CHUNK'' (ChunkNode (vector_rowid c)) e"
    by blast
  have ents: "entity_nodes g1 = entity_nodes g"
    using g1 Cons.prems by (auto simp add: create_chunk_def split: if_splits)
  have d1: "has_node g1 (DocumentNode cid)"
    using Cons.prems docs by (simp add: has_node_def)
  from Cons.IH[OF d1, of "m(vector_rowid c \<mapsto> ChunkNode (vector_rowid c))"]
  obtain g' m' where r: "store_chunks g1 (DocumentNode cid) cs (m(vector_rowid c \<mapsto> ChunkNode (vector_rowid c))) = (g', Inr m')"
    and docs': "documents g' = documents g1"
    and ents': "entity_nodes g' = entity_nodes g1"
    and ids': "set (map cn_vector_rowid (chunk_nodes g1)) \<union> set (map vector_rowid cs) = set (map cn_vector_rowid (chunk_nodes g'))"
    and sub': "set (edges g1) \<subseteq> set (edges g')"
    and all': "\<forall>c' \<in> set cs. chunk_persisted g' cid c'"
    by blast
  have step: "store_chunks g (DocumentNode cid) (c # cs) m = (g', Inr m')"
    using g1 r by simp
  have pc: "chunk_persisted g' cid c"
  proof -
    have "vector_rowid c \<in> set (map cn_vector_rowid (chunk_nodes g'))"
      using ids ids' by blast
    moreover have "\<exists>e \<in> set (edges g'). is_edge (DocumentNode cid) ''HAS_CHUNK'' (ChunkNode (vector_rowid c)) e"
      using ed sub' by blast
    ultimately show ?thesis by (simp add: chunk_persisted_def has_node_def)
  qed
  have i: "set (map cn_vector_rowid (chunk_nodes g)) \<union> set (map vector_rowid (c # cs))
             = set (map cn_vector_rowid (chunk_nodes g'))"
    using ids ids' by auto
  from step docs docs' ents ents' i sub sub' pc all' show ?case
    by (intro exI[of _ g'] exI[of _ m']) auto
qed

lemma extract_kg_failure:
  assumes "(\<exists>e. llm_complete text = Inl e)
           \<or> (\<exists>response e. llm_complete text = Inr response \<and> parse response text = Inl e)"
  shows "fst (extract_kg m llm_complete parse text) = ([], [])"
  using assms by (auto simp add: extract_kg_def Let_def)

lemma process_extracted_empty:
  "\<exists>g' res. process_extracted str_upper g req [] [] = (g', Inr res)
     \<and> success res \<and> res_content_id res = req_content_id req
     \<and> neo4j_document_id res = DocumentNode (req_content_id req)
     \<and> res_entities res = [] \<and> res_relationships res = []
     \<and> entities_extracted res = 0 \<and> relationships_extracted res = 0
     \<and> has_node g' (DocumentNode (req_content_id req))
     \<and> (\<forall>c \<in> set (req_chunks req). chunk_persisted g' (req_content_id req) c)"
proof -
  let ?cid = "req_content_id req"
  obtain g1 where cd: "create_document g ?cid (req_url req) (req_title req) = (g1, DocumentNode ?cid)"
    using create_document_has(2)[of g ?cid "req_url req" "req_title req"]
    by (cases "create_document g ?cid (req_url req) (req_title req)") simp
  have d1: "has_node g1 (DocumentNode ?cid)"
    using create_document_has(1)[of g ?cid "req_url req" "req_title req"] by (simp add: cd)
  from store_chunks_ok[OF d1, of "req_chunks req" Map.empty]
  obtain g2 m2 where sc: "store_chunks g1 (DocumentNode ?cid) (req_chunks req) Map.empty = (g2, Inr m2)"
    and docs: "documents g2 = documents g1"
    and all: "\<forall>c \<in> set (req_chunks req). chunk_persisted g2 ?cid c"
    by blast
  have st: "store_in_neo4j str_upper g ?cid (req_url req) (req_title req) (req_chunks req) [] []
              = (g2, Inr (DocumentNode ?cid))"
    by (simp add: store_in_neo4j_def cd sc)
  have me: "map_entities_to_chunks [] (req_chunks req) = []"
    by (simp add: map_entities_to_chunks_def)
  have mr: "map_relationships_to_chunks [] [] (req_chunks req) = []"
    by (simp add: map_relationships_to_chunks_def map_filter_simps)
  have pe: "process_extracted str_upper g req [] [] =
      (g2, Inr \<lparr> success = True, res_content_id = ?cid, neo4j_document_id = DocumentNode ?cid,
                 entities_extracted = 0, relationships_extracted = 0,
                 res_entities = [], res_relationships = [] \<rparr>)"
    by (simp add: process_extracted_def me mr st)
  have d2: "has_node g2 (DocumentNode ?cid)"
    using d1 docs by (simp add: has_node_def)
  from pe d2 all show ?thesis by simp
qed

text \<open>
  Claim C7. When the completion of the language model raises, or the parsing of its
  response raises, \<open>extract_kg\<close> returns \<open>([], [])\<close>. Whenever the extraction result
  is empty, \<open>process_document\<close> returns a successful result with empty entity and
  relationship lists, and the graph it leaves holds the Document node and, for every
  chunk of the request, the Chunk node with its \<open>HAS_CHUNK\<close> edge.
\<close>

theorem C7_extraction_failure_is_empty_kg:
  "((\<exists>e. llm_complete text = Inl e)
      \<or> (\<exists>response e. llm_complete text = Inr response \<and> parse response text = Inl e)
      \<longrightarrow> fst (extract_kg m llm_complete parse text) = ([], []))
   \<and> (fst (extract_kg m llm_complete parse (req_markdown req)) = ([], []) \<longrightarrow>
        (\<exists>g' m' res. process_document str_upper g m llm_complete parse req = ((g', m'), Inr res)
           \<and> success res \<and> res_content_id res = req_content_id req
           \<and> neo4j_document_id res = DocumentNode (req_content_id req)
           \<and> res_entities res = [] \<and> res_relationships res = []
           \<and> entities_extracted res = 0 \<and> relationships_extracted res = 0
           \<and> has_node g' (DocumentNode (req_content_id req))
           \<and> (\<forall>c \<in> set (req_chunks req). chunk_persisted g' (req_content_id req) c)))"
proof (intro conjI impI)
  assume "(\<exists>e. llm_complete text = Inl e)
      \<or> (\<exists>response e. llm_complete text = Inr response \<and> parse response text = Inl e)"
  then show "fst (extract_kg m llm_complete parse text) = ([], [])"
    by (rule extract_kg_failure)
next
  assume e: "fst (extract_kg m llm_complete parse (req_markdown req)) = ([], [])"
  obtain m' where x: "extract_kg m llm_complete parse (req_markdown req) = (([], []), m')"
    using e by (cases "extract_kg m llm_complete parse (req_markdown req)") auto
  from process_extracted_empty[of str_upper g req]
  obtain g' res where p: "process_extracted str_upper g req [] [] = (g', Inr res)"
    and props: "success res" "res_content_id res = req_content_id req"
      "neo4j_document_id res = DocumentNode (req_content_id req)"
      "res_entities res = []" "res_relationships res = []"
      "entities_extracted res = 0" "relationships_extracted res = 0"
      "has_node g' (DocumentNode (req_content_id req))"
      "\<forall>c \<in> set (req_chunks req). chunk_persisted g' (req_content_id req) c"
    by blast
  have "process_document str_upper g m llm_complete parse req = ((g', m'), Inr res)"
    by (simp add: process_document_def x p)
  with props show "\<exists>g' m' res. process_document str_upper g m llm_complete parse req = ((g', m'), Inr res)
           \<and> success res \<and> res_content_id res = req_content_id req
           \<and> neo4j_document_id res = DocumentNode (req_content_id req)
           \<and> res_entities res = [] \<and> res_relationships res = []
           \<and> entities_extracted res = 0 \<and> relationships_extracted res = 0
           \<and> has_node g' (DocumentNode (req_content_id req))
           \<and> (\<forall>c \<in> set (req_chunks req). chunk_persisted g' (req_content_id req) c)"
    by blast
qed

lemma example_failed_ingest:
  "process_document ascii_upper empty_graph initial_metrics failing_llm no_parse example_request
     = ((\<lparr> documents = [\<lparr> content_id = 123, url = ''https://docs.example.org/kg'',
                            title = ''Knowledge graph service'' \<rparr>],
           chunk_nodes = [\<lparr> cn_vector_rowid = 45001, cn_chunk_index = 0, cn_char_start = 0,
                             cn_char_end = 2500,
                             text_preview = ''The knowledge graph extraction service'' \<rparr>],
           entity_nodes = [],
           edges = [bare_edge (DocumentNode 123) ''HAS_CHUNK'' (ChunkNode 45001)] \<rparr>,
         \<lparr> active_extractions = 0, total_queued = 1, total_completed = 0, total_failed = 1 \<rparr>),
        Inr \<lparr> success = True, res_content_id = 123, neo4j_document_id = DocumentNode 123,
              entities_extracted = 0, relationships_extracted = 0,
              res_entities = [], res_relationships = [] \<rparr>)"
  by (simp add: process_document_def extract_kg_def failing_llm_def example_request_def
      example_ingest_chunk_def initial_metrics_def py_strip_def py_rstrip_def py_lstrip_def
      py_isspace_def Let_def process_extracted_def map_entities_to_chunks_def
      map_relationships_to_chunks_def map_filter_simps store_in_neo4j_def create_document_def
      create_chunk_def has_node_def empty_graph_def)

text \<open>An ingest whose completion raises \<open>ModelUnavailableError\<close>, into the empty graph.\<close>

theorem C7_witness:
  "failing_llm (req_markdown example_request) = Inl ModelUnavailableError
   \<and> fst (extract_kg initial_metrics failing_llm no_parse (req_markdown example_request)) = ([], [])
   \<and> map_sum id res_entities
        (snd (process_document ascii_upper empty_graph initial_metrics failing_llm no_parse example_request)) = Inr []
   \<and> map content_id (documents (fst (fst
        (process_document ascii_upper empty_graph initial_metrics failing_llm no_parse example_request)))) = [123]
   \<and> map cn_vector_rowid (chunk_nodes (fst (fst
        (process_document ascii_upper empty_graph initial_metrics failing_llm no_parse example_request)))) = [45001]"
proof -
  have f: "failing_llm (req_markdown example_request) = Inl ModelUnavailableError"
    by (simp add: failing_llm_def)
  from C7_extraction_failure_is_empty_kg[of failing_llm "req_markdown example_request" no_parse
      initial_metrics example_request ascii_upper empty_graph] f
  have "fst (extract_kg initial_metrics failing_llm no_parse (req_markdown example_request)) = ([], [])"
    by blast
  with f show ?thesis by (simp add: example_failed_ingest)
qed

lemma list_all_merge_by:
  "list_all P xs \<Longrightarrow> P c \<Longrightarrow> (\<And>x. P x \<Longrightarrow> P (f x)) \<Longrightarrow> list_all P (merge_by m f c xs)"
  by (induction xs) auto

lemma no_edge_from_chunk_empty: "no_edge_from_chunk empty_graph"
  by (simp add: no_edge_from_chunk_def empty_graph_def)

lemma create_document_no_edge_from_chunk:
  "no_edge_from_chunk g \<Longrightarrow> no_edge_from_chunk (fst (create_document g cid u t))"
  by (simp add: no_edge_from_chunk_def create_document_def)

lemma create_chunk_no_edge_from_chunk:
  assumes "no_edge_from_chunk g" and "create_chunk g d rowid idx cs ce preview = Inr (g', k)"
  shows "no_edge_from_chunk g'"
proof (cases d)
  case (DocumentNode i)
  have b: "\<not> from_chunk (bare_edge (DocumentNode i) ''HAS_CHUNK'' (ChunkNode rowid))"
    by (simp add: from_chunk_def bare_edge_def)
  from assms(1) have "list_all (\<lambda>e. \<not> from_chunk e)
      (merge_by (is_edge (DocumentNode i) ''HAS_CHUNK'' (ChunkNode rowid)) (\<lambda>e. e)
         (bare_edge (DocumentNode i) ''HAS_CHUNK'' (ChunkNode rowid)) (edges g))"
    unfolding no_edge_from_chunk_def using b by (intro list_all_merge_by) auto
  with assms(2) DocumentNode show ?thesis
    by (auto simp add: create_chunk_def no_edge_from_chunk_def split: if_splits)
next
  case (ChunkNode r)
  with assms(2) show ?thesis by (simp add: create_chunk_def)
next
  case (EntityNode n)
  with assms(2) show ?thesis by (simp add: create_chunk_def)
qed

lemma store_chunks_no_edge_from_chunk:
  "no_edge_from_chunk g \<Longrightarrow> no_edge_from_chunk (fst (store_chunks g d cs mp))"
proof (induction cs arbitrary: g mp)
  case Nil
  then show ?case by simp
next
  case (Cons c cs)
  show ?case
  proof (cases "create_chunk g d (vector_rowid c) (chunk_index c) (char_start c) (char_end c) (take 200 (chunk_text c))")
    case (Inl e)
    then show ?thesis using Cons.prems by simp
  next
    case (Inr p)
    obtain g' k where p: "p = (g', k)" by (cases p)
    from create_chunk_no_edge_from_chunk[OF Cons.prems Inr[unfolded p]]
    have "no_edge_from_chunk g'" .
    from Cons.IH[OF this] show ?thesis using Inr p by simp
  qed
qed

lemma create_entity_no_edge_from_chunk:
  "no_edge_from_chunk g \<Longrightarrow> no_edge_from_chunk (fst (create_entity g t n tp s1 s2 s3 tf conf))"
  by (simp add: no_edge_from_chunk_def create_entity_def)

lemma link_entity_to_chunk_no_edge_from_chunk:
  assumes "no_edge_from_chunk g"
  shows "no_edge_from_chunk (link_entity_to_chunk g en cn os oe conf cb ca sen)"
proof (cases en)
  case (EntityNode n)
  let ?setp = "\<lambda>e. e \<lparr> e_offset_start := Some os, e_offset_end := Some oe,
                          e_confidence := Some conf, e_context_before := Some (take 100 cb),
                          e_context_after := Some (take 100 ca), e_sentence := Some (take 500 sen) \<rparr>"
  from assms have "list_all (\<lambda>e. \<not> from_chunk e)
      (merge_by (is_edge (EntityNode n) ''MENTIONED_IN'' cn) ?setp
         (?setp (bare_edge (EntityNode n) ''MENTIONED_IN'' cn)) (edges g))"
    unfolding no_edge_from_chunk_def
    by (intro list_all_merge_by) (auto simp add: from_chunk_def bare_edge_def)
  with assms EntityNode show ?thesis
    by (simp add: link_entity_to_chunk_def no_edge_from_chunk_def Let_def)
next
  case (ChunkNode r)
  with assms show ?thesis by (simp add: link_entity_to_chunk_def Let_def)
next
  case (DocumentNode i)
  with assms show ?thesis by (simp add: link_entity_to_chunk_def Let_def)
qed

lemma link_appearances_no_edge_from_chunk:
  "no_edge_from_chunk g \<Longrightarrow> no_edge_from_chunk (link_appearances g mp k e as)"
proof (induction as arbitrary: g)
  case Nil
  then show ?case by simp
next
  case (Cons a as)
  then show ?case
    by (cases "mp (app_vector_rowid a)") (simp_all add: link_entity_to_chunk_no_edge_from_chunk)
qed

lemma store_entities_no_edge_from_chunk:
  "no_edge_from_chunk g \<Longrightarrow> no_edge_from_chunk (store_entities g mp es)"
proof (induction es arbitrary: g)
  case Nil
  then show ?case by simp
next
  case (Cons e es)
  obtain g' k where c: "create_entity g (ent_text e) (normalized e) (type_primary e) (type_sub1 e)
             (type_sub2 e) (type_sub3 e) (type_full e) (confidence e) = (g', k)"
    by (cases "create_entity g (ent_text e) (normalized e) (type_primary e) (type_sub1 e)
             (type_sub2 e) (type_sub3 e) (type_full e) (confidence e)")
  from create_entity_no_edge_from_chunk[OF Cons.prems, of "ent_text e" "normalized e" "type_primary e"
      "type_sub1 e" "type_sub2 e" "type_sub3 e" "type_full e" "confidence e"] c
  have "no_edge_from_chunk g'" by simp
  from Cons.IH[OF link_appearances_no_edge_from_chunk[OF this]] c show ?case by simp
qed

lemma create_relationship_no_edge_from_chunk:
  assumes "no_edge_from_chunk g"
  shows "no_edge_from_chunk (create_relationship str_upper g s p ob conf ctx)"
proof -
  let ?t = "rel_type_of str_upper p"
  from assms have "list_all (\<lambda>e. \<not> from_chunk e)
      (merge_by (is_edge (EntityNode s) ?t (EntityNode ob)) (relationship_on_match conf)
         ((bare_edge (EntityNode s) ?t (EntityNode ob))
            \<lparr> e_confidence := Some conf, e_context := Some (take 500 ctx), occurrence_count := Some 1 \<rparr>)
         (edges g))"
    unfolding no_edge_from_chunk_def
    by (intro list_all_merge_by)
       (auto simp add: from_chunk_def bare_edge_def relationship_on_match_def Let_def)
  with assms show ?thesis
    by (simp add: create_relationship_def no_edge_from_chunk_def Let_def)
qed

lemma store_relationships_no_edge_from_chunk:
  "no_edge_from_chunk g \<Longrightarrow> no_edge_from_chunk (store_relationships str_upper g rs)"
  by (induction rs arbitrary: g) (simp_all add: create_relationship_no_edge_from_chunk)

lemma store_in_neo4j_no_edge_from_chunk:
  assumes "no_edge_from_chunk g"
  shows "no_edge_from_chunk (fst (store_in_neo4j str_upper g cid u t chunks entities relationships))"
proof -
  obtain g1 d where d: "create_document g cid u t = (g1, d)" by (cases "create_document g cid u t")
  from create_document_no_edge_from_chunk[OF assms, of cid u t] d have g1: "no_edge_from_chunk g1" by simp
  obtain g2 r where s: "store_chunks g1 d chunks Map.empty = (g2, r)"
    by (cases "store_chunks g1 d chunks Map.empty")
  from store_chunks_no_edge_from_chunk[OF g1, of d chunks Map.empty] s have g2: "no_edge_from_chunk g2" by simp
  show ?thesis
  proof (cases r)
    case (Inl e)
    with d s g2 show ?thesis by (simp add: store_in_neo4j_def)
  next
    case (Inr mp)
    from store_relationships_no_edge_from_chunk[OF store_entities_no_edge_from_chunk[OF g2]]
    show ?thesis using d s Inr by (simp add: store_in_neo4j_def)
  qed
qed

lemma process_document_no_edge_from_chunk:
  assumes "no_edge_from_chunk g"
  shows "no_edge_from_chunk (fst (fst (process_document str_upper g m llm_complete parse_llm_response req)))"
proof -
  have 1: "no_edge_from_chunk (fst (process_extracted str_upper g req es rs))" for es rs
    using store_in_neo4j_no_edge_from_chunk[OF assms]
    by (simp add: process_extracted_def Let_def split: prod.splits sum.splits)
       (metis fst_conv)
  show ?thesis
    by (simp add: process_document_def split: prod.splits) (metis 1 fst_conv)
qed

lemma part_of_none: "no_edge_from_chunk g \<Longrightarrow> part_of g c = []"
proof -
  have "list_all (\<lambda>e. \<not> from_chunk e) es \<Longrightarrow>
        [d. ed \<leftarrow> es, src ed = ChunkNode r \<and> label ed = l, d \<leftarrow> ds, dst ed = DocumentNode (content_id d)] = []"
    for es r l and ds :: "document_node list"
    by (induction es) (auto simp add: from_chunk_def)
  then show "no_edge_from_chunk g \<Longrightarrow> part_of g c = []"
    unfolding no_edge_from_chunk_def part_of_def by blast
qed

lemma chunk_matches_none: "no_edge_from_chunk g \<Longrightarrow> chunk_matches g e = []"
  by (simp add: chunk_matches_def part_of_none)

lemma query_rows_none:
  assumes "no_edge_from_chunk g" and "r \<in> set (query_rows g search_terms)"
  shows "search_chunk r = None \<and> expanded_chunk r = None"
  using assms(2) by (auto simp add: query_rows_def optional_match_def chunk_matches_none[OF assms(1)])

lemma set_dict_keys: "set (dict_keys xs) = set xs"
  by (simp add: dict_keys_def)

lemma query_no_rowid:
  assumes "no_edge_from_chunk g"
  shows "c \<in> set (search_chunks (execute_enhanced_query g search_terms n)
                  @ expanded_chunks (execute_enhanced_query g search_terms n))
         \<Longrightarrow> rc_vector_rowid c = None"
  using query_rows_none[OF assms, of _ search_terms]
  by (auto simp add: execute_enhanced_query_def Let_def set_dict_keys chunk_map_def)

lemma score_loop_no_rowid:
  "(\<And>c. c \<in> set cs \<Longrightarrow> rc_vector_rowid c = None) \<Longrightarrow> score_loop entry cs st = Inr st"
proof (induction cs)
  case Nil
  then show ?case by simp
next
  case (Cons c cs)
  then show ?case by (cases st) simp
qed

lemma score_and_rank_chunks_no_rowid:
  assumes "\<And>c. c \<in> set (search_chunks qr @ expanded_chunks qr) \<Longrightarrow> rc_vector_rowid c = None"
  shows "score_and_rank_chunks qr = Inr []"
proof -
  have 1: "score_loop search_entry (search_chunks qr) ([], {}) = Inr ([], {})"
    using assms by (intro score_loop_no_rowid) simp
  have 2: "score_loop expanded_entry (expanded_chunks qr) ([], {}) = Inr ([], {})"
    using assms by (intro score_loop_no_rowid) simp
  show ?thesis by (simp add: score_and_rank_chunks_def 1 2 sort_by_score_desc_def)
qed

lemma enhanced_kg_search_no_chunks:
  assumes "no_edge_from_chunk g"
  shows "enhanced_kg_search g request =
     Inr \<lparr> resp_success = True, resp_query = sr_query request, resp_chunks = [],
           total_chunks = 0, total_chunks_found = 0, chunks_returned = 0,
           multi_entity_chunks = 0, single_entity_chunks = 0, expansion_only_chunks = 0 \<rparr>"
proof -
  have "score_and_rank_chunks (execute_enhanced_query g (sr_search_term_entities request) (sr_max_chunks request)) = Inr []"
    using query_no_rowid[OF assms] by (intro score_and_rank_chunks_no_rowid) blast
  then show ?thesis
    by (simp add: enhanced_kg_search_def search_response_of_def py_prefix_def)
qed

lemma search_example_graph_edges:
  "map (\<lambda>e. (src e, label e, dst e)) (edges search_example_graph)
     = [(DocumentNode 7, ''HAS_CHUNK'', ChunkNode 1),
        (DocumentNode 7, ''HAS_CHUNK'', ChunkNode 2),
        (EntityNode ''neo4j graph database'', ''MENTIONED_IN'', ChunkNode 1),
        (EntityNode ''python programming language'', ''MENTIONED_IN'', ChunkNode 1),
        (EntityNode ''python programming language'', ''MENTIONED_IN'', ChunkNode 2)]"
  by code_simp

lemma search_example_query:
  "execute_enhanced_query search_example_graph (sr_search_term_entities search_example_search) 100
     = \<lparr> search_chunks =
           [chunk_map None [''Neo4j graph database'', ''Python programming language''] []],
         expanded_chunks = [chunk_map None [] []] \<rparr>"
  by code_simp




text \<open>
  Claim C1 does not hold of the code. The query of the enhanced search reaches a chunk
  only through an edge \<open>PART_OF\<close> from the chunk to its document. The ingest path
  writes the edges \<open>HAS_CHUNK\<close> (document to chunk), \<open>MENTIONED_IN\<close> (entity to
  chunk) and the relationships between entities, so no edge ever leaves a chunk node:
  this holds of the empty graph and is kept by every \<open>process_document\<close>. On such a
  graph every chunk map of the query result is null, the scorer skips all of them, and
  the endpoint answers with an empty list of chunks, whatever the entities and whatever
  chunks they are mentioned in.
\<close>

theorem C1_ingested_chunks_are_never_reached:
  "no_edge_from_chunk empty_graph
   \<and> (no_edge_from_chunk g \<longrightarrow>
        no_edge_from_chunk
          (fst (fst (process_document str_upper g m llm_complete parse_llm_response req)))
        \<and> chunk_matches g e = []
        \<and> score_and_rank_chunks (execute_enhanced_query g search_terms n) = Inr []
        \<and> enhanced_kg_search g request =
             Inr \<lparr> resp_success = True, resp_query = sr_query request, resp_chunks = [],
                   total_chunks = 0, total_chunks_found = 0, chunks_returned = 0,
                   multi_entity_chunks = 0, single_entity_chunks = 0, expansion_only_chunks = 0 \<rparr>)"
proof -
  have "score_and_rank_chunks (execute_enhanced_query g search_terms n) = Inr []"
    if "no_edge_from_chunk g"
    using query_no_rowid[OF that] by (intro score_and_rank_chunks_no_rowid) blast
  then show ?thesis
    using no_edge_from_chunk_empty process_document_no_edge_from_chunk chunk_matches_none
      enhanced_kg_search_no_chunks by blast
qed

text \<open>
  A document of two chunks is ingested into the empty graph; the graph then records both
  entities as mentioned in chunk 1 and one of them in chunk 2, so the claim expects the
  scores 1.0 and 0.6. Both search terms resolve, and the search returns no chunk.
\<close>

theorem C1_witness:
  "map (\<lambda>e. (src e, label e, dst e)) (edges search_example_graph)
     = [(DocumentNode 7, ''HAS_CHUNK'', ChunkNode 1),
        (DocumentNode 7, ''HAS_CHUNK'', ChunkNode 2),
        (EntityNode ''neo4j graph database'', ''MENTIONED_IN'', ChunkNode 1),
        (EntityNode ''python programming language'', ''MENTIONED_IN'', ChunkNode 1),
        (EntityNode ''python programming language'', ''MENTIONED_IN'', ChunkNode 2)]
   \<and> search_chunks (execute_enhanced_query search_example_graph
                       (sr_search_term_entities search_example_search) 100)
       = [chunk_map None [''Neo4j graph database'', ''Python programming language''] []]
   \<and> enhanced_kg_search search_example_graph search_example_search =
         Inr \<lparr> resp_success = True, resp_query = ''Neo4j Python drivers'', resp_chunks = [],
               total_chunks = 0, total_chunks_found = 0, chunks_returned = 0,
               multi_entity_chunks = 0, single_entity_chunks = 0, expansion_only_chunks = 0 \<rparr>"
proof -
  from C1_ingested_chunks_are_never_reached[of empty_graph ascii_upper initial_metrics
      search_example_llm search_example_parse search_example_request]
  have g: "no_edge_from_chunk search_example_graph"
    unfolding search_example_graph_def by blast
  from C1_ingested_chunks_are_never_reached[of search_example_graph _ _ _ _ _ _ _ _ search_example_search] g
  have "enhanced_kg_search search_example_graph search_example_search =
         Inr \<lparr> resp_success = True, resp_query = sr_query search_example_search, resp_chunks = [],
               total_chunks = 0, total_chunks_found = 0, chunks_returned = 0,
               multi_entity_chunks = 0, single_entity_chunks = 0, expansion_only_chunks = 0 \<rparr>"
    by blast
  then show ?thesis
    using search_example_graph_edges search_example_query
    by (simp add: search_example_search_def)
qed


lemma example_request_valid: "request_valid example_request"
  by (simp add: request_valid_def example_request_def example_ingest_chunk_def
      chunk_metadata_valid_def prefix_def)

text \<open>
  Claim C9 does not hold of the code. A request that violates the schema is answered 422
  and a failing extraction is answered 500, as claimed. With the orchestrator
  uninitialized, the handler raises the exception with status 503 inside its own
  \<open>try\<close>, whose \<open>except Exception\<close> clause catches it and raises status 500 instead:
  the answer is 500, and no request is ever answered 503.
\<close>

theorem C9_uninitialized_processor_answers_500:
  "(request_valid request \<longrightarrow> post_ingest None request = (500, None))
   \<and> fst (post_ingest kg_processor request) \<noteq> 503
   \<and> (\<not> request_valid request \<longrightarrow> post_ingest kg_processor request = (422, None))
   \<and> (request_valid request \<and> kg_processor = Some processor \<and> processor request = Inl e
        \<longrightarrow> post_ingest kg_processor request = (500, None))
   \<and> (request_valid request \<and> kg_processor = Some processor \<and> processor request = Inr result
        \<longrightarrow> post_ingest kg_processor request = (200, Some result))"
  by (auto simp add: post_ingest_def ingest_document_def ingest_try_def
      split: option.splits sum.splits)

theorem C9_witness:
  "request_valid example_request \<and> post_ingest None example_request = (500, None)"
  using C9_uninitialized_processor_answers_500[of example_request] example_request_valid
  by blast

lemma entity_position_example:
  "entity_position str_lower (req_markdown located_example_request) ''knowledge graph extraction''
     None None = Some (4, 30)"
proof -
  have "py_find (req_markdown located_example_request) ''knowledge graph extraction'' = 4"
    by code_simp
  then show ?thesis by (simp add: entity_position_def Let_def)
qed

lemma located_example_entities:
  "(case snd (process_document ascii_upper empty_graph initial_metrics
               located_example_llm located_example_parse located_example_request) of
      Inl err \<Rightarrow> None
    | Inr result \<Rightarrow>
        Some (map (\<lambda>e. (ent_text e, ent_start e, ent_end e,
                         map (\<lambda>a. (app_vector_rowid a, offset_start a, offset_end a))
                           (chunk_appearances e)))
                (res_entities result)))
     = Some [(''knowledge graph extraction'', 4, 30, [(45001, 0, 26)])]"
  by code_simp

lemma located_example_slices:
  "py_slice (req_markdown located_example_request) 4 30 = ''knowledge graph extraction''
   \<and> py_slice (req_markdown located_example_request) 0 26 = ''The knowledge graph extrac''"
  by code_simp

lemma map_entity_ignores_span:
  "chunk_appearances (map_entity cs (e \<lparr> ent_start := s, ent_end := t \<rparr>))
     = chunk_appearances (map_entity cs e)"
  by (simp add: map_entity_def entity_occurrences_def Let_def cong: option.case_cong)

lemma split_words_replicate:
  "\<not> py_isspace c \<Longrightarrow> split_words cur (replicate n c @ rest) = split_words (replicate n c @ cur) rest"
  by (induction n arbitrary: cur) (simp_all add: replicate_app_Cons_same)

lemma split_words_replicate_end:
  assumes "\<not> py_isspace c" and "0 < n"
  shows "split_words [] (replicate n c) = [replicate n c]"
proof -
  have "split_words [] (replicate n c @ []) = split_words (replicate n c @ []) []"
    by (rule split_words_replicate[OF assms(1)])
  then show ?thesis using assms(2) by simp
qed

lemma py_split_spaced_example:
  "py_split spaced_example = [replicate 800 CHR ''a'', replicate 800 CHR ''b'']"
proof -
  have a: "\<not> py_isspace CHR ''a''" and b: "\<not> py_isspace CHR ''b''" and sp: "py_isspace CHR '' ''"
    by (simp_all add: py_isspace_def)
  have "split_words [] (replicate 800 CHR ''a'' @ CHR '' '' # CHR '' '' # replicate 800 CHR ''b'')
        = split_words (replicate 800 CHR ''a'' @ []) (CHR '' '' # CHR '' '' # replicate 800 CHR ''b'')"
    by (rule split_words_replicate[OF a])
  also have "\<dots> = replicate 800 CHR ''a'' # split_words [] (replicate 800 CHR ''b'')"
    using sp by simp
  also have "split_words [] (replicate 800 CHR ''b'') = [replicate 800 CHR ''b'']"
    by (rule split_words_replicate_end[OF b]) simp
  finally show ?thesis by (simp add: py_split_def spaced_example_def)
qed

lemma spaced_example_chunks:
  "chunk_text_for_gliner spaced_example 1000
     = [\<lparr> gc_text = replicate 800 CHR ''a'', gc_char_start = 0, gc_char_end = 800 \<rparr>,
        \<lparr> gc_text = replicate 800 CHR ''b'', gc_char_start = 801, gc_char_end = 1601 \<rparr>]"
  by (simp add: chunk_text_for_gliner_def py_split_spaced_example Let_def)

lemma spaced_example_predictions:
  "map (\<lambda>p. (pred_text p, pred_start p, pred_end p)) (gliner_predictions leading_predictor spaced_example)
     = [(replicate 10 CHR ''a'', 0, 10), (replicate 10 CHR ''b'', 801, 811)]"
proof -
  have "length spaced_example > 1500" by (simp add: spaced_example_def)
  then show ?thesis
    by (simp add: gliner_predictions_def spaced_example_chunks leading_predictor_def)
qed

lemma spaced_example_slices:
  "py_slice spaced_example 801 811 = CHR '' '' # replicate 9 CHR ''b''
   \<and> py_slice spaced_example 802 812 = replicate 10 CHR ''b''
   \<and> py_slice spaced_example 801 1601 = CHR '' '' # replicate 799 CHR ''b''"
  by (simp add: py_slice_def py_index_def spaced_example_def)

text \<open>
  Claim C5 does not hold of the code. Both extractors record the span of an entity under
  the keys \<open>start\<close> and \<open>end\<close>; the mapper reads \<open>occurrences\<close>, \<open>start_pos\<close> and
  \<open>end_pos\<close>, so the appearances it computes do not depend on the span: every entity is
  placed at the start of the document. In the example the unified extractor finds the
  entity at characters 4 to 30, where the document reads the entity text; the entity
  returned by \<open>process_document\<close> has the appearance with offsets 0 and 26 in the chunk
  that starts at 0, where the document reads something else. On the recognition path the
  segmentation computes \<open>char_start\<close> as if the words were separated by single spaces:
  for two words of 800 characters separated by two spaces the second segment is recorded
  at 801 while it starts at 802, and the shifted span of a prediction in it does not hold
  the predicted text.
\<close>

theorem C5_offsets_do_not_locate_the_entity:
  "chunk_appearances (map_entity cs (e \<lparr> ent_start := s, ent_end := t \<rparr>))
     = chunk_appearances (map_entity cs e)
   \<and> entity_position str_lower (req_markdown located_example_request)
         ''knowledge graph extraction'' None None = Some (4, 30)
   \<and> py_slice (req_markdown located_example_request) 4 30 = ''knowledge graph extraction''
   \<and> (case snd (process_document ascii_upper empty_graph initial_metrics
                   located_example_llm located_example_parse located_example_request) of
          Inl err \<Rightarrow> None
        | Inr result \<Rightarrow>
            Some (map (\<lambda>e. (ent_text e, ent_start e, ent_end e,
                             map (\<lambda>a. (app_vector_rowid a, offset_start a, offset_end a))
                               (chunk_appearances e)))
                    (res_entities result)))
       = Some [(''knowledge graph extraction'', 4, 30, [(45001, 0, 26)])]
   \<and> py_slice (req_markdown located_example_request) 0 26 = ''The knowledge graph extrac''
   \<and> chunk_text_for_gliner spaced_example 1000
       = [\<lparr> gc_text = replicate 800 CHR ''a'', gc_char_start = 0, gc_char_end = 800 \<rparr>,
          \<lparr> gc_text = replicate 800 CHR ''b'', gc_char_start = 801, gc_char_end = 1601 \<rparr>]
   \<and> py_slice spaced_example 801 1601 = CHR '' '' # replicate 799 CHR ''b''
   \<and> map (\<lambda>p. (pred_text p, pred_start p, pred_end p))
         (gliner_predictions leading_predictor spaced_example)
       = [(replicate 10 CHR ''a'', 0, 10), (replicate 10 CHR ''b'', 801, 811)]
   \<and> py_slice spaced_example 801 811 = CHR '' '' # replicate 9 CHR ''b''"
  using map_entity_ignores_span entity_position_example located_example_slices
    located_example_entities spaced_example_chunks spaced_example_predictions
    spaced_example_slices
  by blast






















end
